theory Spec2Isabelle
  imports Complex_Main "HOL-Library.Sublist"
begin

text \<open>
  A model of \<^verbatim>\<open>utils.py\<close> of the SHARAD processing library: the calibration of the raw
  echoes, the extraction of the surface echo of each frame from the waveform array, the
  resampling of the telemetry to the frames, the pipeline that bundles them into one table
  per orbit, and the entry point that runs the sliding estimator on it. The readers of
  \<^verbatim>\<open>raw.py\<close> are represented by the tables they return.
\<close>

section \<open>Floating-point values\<close>

text \<open>
  The arrays of \<^verbatim>\<open>utils.py\<close> hold IEEE-754 doubles. A value is modelled by its class:
  not-a-number, the two infinities, or a finite number. The special values follow IEEE-754
  exactly (not-a-number propagates through every operation and compares false with
  everything, itself included). Finite arithmetic is idealised to the reals: no rounding,
  no overflow, a single zero. The properties proved below are about where not-a-number
  appears, about shapes and about which cells are written, none of which depends on
  rounding; the one numeric bound (the linear amplitude of the reference scenario) is a
  bound on the real value that the double approximates.
\<close>

datatype flt = NaN | NInf | Fin real | PInf

fun fneg :: "flt \<Rightarrow> flt" where
  "fneg NaN = NaN"
| "fneg NInf = PInf"
| "fneg PInf = NInf"
| "fneg (Fin a) = Fin (- a)"

fun fadd :: "flt \<Rightarrow> flt \<Rightarrow> flt" where
  "fadd NaN _ = NaN"
| "fadd _ NaN = NaN"
| "fadd (Fin a) (Fin b) = Fin (a + b)"
| "fadd PInf NInf = NaN"
| "fadd NInf PInf = NaN"
| "fadd PInf _ = PInf"
| "fadd _ PInf = PInf"
| "fadd NInf _ = NInf"
| "fadd _ NInf = NInf"

definition fsub :: "flt \<Rightarrow> flt \<Rightarrow> flt" where
  "fsub a b = fadd a (fneg b)"

text \<open>Sign of a value that is not not-a-number: \<open>-1\<close>, \<open>0\<close> or \<open>1\<close>.\<close>

fun fsgn :: "flt \<Rightarrow> int" where
  "fsgn NaN = 0"
| "fsgn NInf = - 1"
| "fsgn PInf = 1"
| "fsgn (Fin a) = (if a < 0 then - 1 else if a = 0 then 0 else 1)"

fun fmul :: "flt \<Rightarrow> flt \<Rightarrow> flt" where
  "fmul NaN _ = NaN"
| "fmul _ NaN = NaN"
| "fmul (Fin a) (Fin b) = Fin (a * b)"
| "fmul a b =
     (if fsgn a = 0 \<or> fsgn b = 0 then NaN
      else if fsgn a = fsgn b then PInf else NInf)"

text \<open>
  Division as numpy does it on arrays: a zero divisor gives an infinity or not-a-number,
  never an exception. The only divisor in the program is the literal \<open>20.\<close>.
\<close>

fun fdiv :: "flt \<Rightarrow> flt \<Rightarrow> flt" where
  "fdiv NaN _ = NaN"
| "fdiv _ NaN = NaN"
| "fdiv (Fin a) (Fin b) =
     (if b = 0 then (if a = 0 then NaN else if 0 < a then PInf else NInf)
      else Fin (a / b))"
| "fdiv (Fin a) _ = Fin 0"
| "fdiv a (Fin b) = (if 0 \<le> b then a else fneg a)"
| "fdiv _ _ = NaN"

text \<open>\<^verbatim>\<open>np.log10\<close>: not-a-number below zero, minus infinity at zero.\<close>

fun flog10 :: "flt \<Rightarrow> flt" where
  "flog10 NaN = NaN"
| "flog10 NInf = NaN"
| "flog10 PInf = PInf"
| "flog10 (Fin a) = (if a < 0 then NaN else if a = 0 then NInf else Fin (log 10 a))"

text \<open>\<^verbatim>\<open>10**v\<close>.\<close>

fun fpow10 :: "flt \<Rightarrow> flt" where
  "fpow10 NaN = NaN"
| "fpow10 NInf = Fin 0"
| "fpow10 PInf = PInf"
| "fpow10 (Fin a) = Fin (10 powr a)"

text \<open>The comparisons \<^verbatim>\<open><\<close> and \<^verbatim>\<open>==\<close>: false as soon as one side is not-a-number.\<close>

fun flt_less :: "flt \<Rightarrow> flt \<Rightarrow> bool" where
  "flt_less NaN _ = False"
| "flt_less _ NaN = False"
| "flt_less (Fin a) (Fin b) = (a < b)"
| "flt_less NInf NInf = False"
| "flt_less NInf _ = True"
| "flt_less _ NInf = False"
| "flt_less PInf _ = False"
| "flt_less _ PInf = True"

definition flt_eq :: "flt \<Rightarrow> flt \<Rightarrow> bool" where
  "flt_eq a b = (a \<noteq> NaN \<and> b \<noteq> NaN \<and> a = b)"

definition flt_le :: "flt \<Rightarrow> flt \<Rightarrow> bool" where
  "flt_le a b = (flt_less a b \<or> flt_eq a b)"

text \<open>The exceptions the code can raise.\<close>

datatype error = IndexError | ValueError | AttributeError | TypeError | NameError | ExternalError

section \<open>Parameters (\<^verbatim>\<open>_params.py\<close>)\<close>

definition frq :: real where
  "frq = 20000000"

definition abs_calib :: real where
  "abs_calib = - 14243 / 100"

definition srf_path :: string where
  "srf_path = ''../../../targ/xtra/SHARAD/srf/''"

text \<open>\<^verbatim>\<open>scipy.constants.c\<close>, the speed of light in vacuum.\<close>

definition ct_c :: real where
  "ct_c = 299792458"

section \<open>Calibration\<close>

text \<open>
  The \<^verbatim>\<open>rng\<close> argument is the literal \<^verbatim>\<open>False\<close> (the default), a scalar or an array.
\<close>

datatype rng_arg = RFalse | RScalar flt | RArray "flt list"

datatype operand = Scalar flt | Array "flt list"

text \<open>
  Elementwise addition of an array and an operand, with numpy's broadcasting of
  one-dimensional arrays: equal lengths, or one side of length one; anything else raises
  \<^verbatim>\<open>ValueError\<close>.
\<close>

fun array_add :: "flt list \<Rightarrow> operand \<Rightarrow> error + flt list" where
  "array_add xs (Scalar b) = Inr (map (\<lambda>x. fadd x b) xs)"
| "array_add xs (Array ys) =
     (if length xs = length ys then Inr (map (\<lambda>(x, y). fadd x y) (zip xs ys))
      else if length ys = 1 then Inr (map (\<lambda>x. fadd x (hd ys)) xs)
      else if length xs = 1 then Inr (map (\<lambda>y. fadd (hd xs) y) ys)
      else Inl ValueError)"

text \<open>Line 37, \<^verbatim>\<open>val[np.where(val == 0)] = np.nan\<close>: an update of the array itself.\<close>

definition zero_to_nan :: "flt list \<Rightarrow> flt list" where
  "zero_to_nan val = map (\<lambda>v. if flt_eq v (Fin 0) then NaN else v) val"

text \<open>Line 40, \<^verbatim>\<open>0 if rng is False else 20*np.log10(8*np.pi*rng)\<close>.\<close>

definition loss_of :: "flt \<Rightarrow> flt" where
  "loss_of r = fmul (Fin 20) (flog10 (fmul (Fin (8 * pi)) r))"

fun geometric_loss :: "rng_arg \<Rightarrow> operand" where
  "geometric_loss RFalse = Scalar (Fin 0)"
| "geometric_loss (RScalar r) = Scalar (loss_of r)"
| "geometric_loss (RArray rs) = Array (map loss_of rs)"

text \<open>
  \<^verbatim>\<open>calibration(val, wl, rng, abs_calib)\<close>. The first component of the result is the
  caller's array after the call (line 37 writes into it; line 39 rebinds the local name to
  a new array), the second is the returned array or the exception.
\<close>

definition calibration ::
  "flt list \<Rightarrow> real \<Rightarrow> rng_arg \<Rightarrow> flt \<Rightarrow> flt list \<times> (error + flt list)" where
  "calibration val wl rng ac =
     (let val1 = zero_to_nan val;
          val2 = map (\<lambda>v. fmul (Fin 10) (flog10 v)) val1;
          val3 = map (\<lambda>v. fadd v ac) val2
      in (val1, array_add val3 (geometric_loss rng)))"

section \<open>Echo extraction (\<^verbatim>\<open>get_pik\<close>)\<close>

text \<open>
  A row of the pick table as \<^verbatim>\<open>raw.read_pik\<close> returns it. Only the columns that
  \<^verbatim>\<open>get_pik\<close> reads are kept. The frame number is an integral value of the file;
  \<^verbatim>\<open>read_pik\<close> keeps the rows with a positive delay, so \<open>delay_pixel\<close> is positive in
  every table it returns. The indices that \<^verbatim>\<open>get_pik\<close> computes from a row are floats
  with an integral value; the numpy of the program (Python 2, as \<^verbatim>\<open>string.replace\<close> and
  \<^verbatim>\<open>DataFrame.ix\<close> show) takes such a float as the integer index, and so does the model.
\<close>

record pick =
  frame :: int
  delay_pixel :: real

text \<open>
  The waveform array of \<^verbatim>\<open>raw.read_rpb\<close>: \<open>shape0\<close> delay samples (3600 in every file)
  by \<open>shape1\<close> along-track frames.
\<close>

record matrix =
  shape0 :: nat
  shape1 :: nat
  cell :: "nat \<Rightarrow> nat \<Rightarrow> flt"

text \<open>\<^verbatim>\<open>np.round\<close> rounds to the nearest integer, a half to the even neighbour.\<close>

definition np_round :: "real \<Rightarrow> int" where
  "np_round a =
     (let f = \<lfloor>a\<rfloor>; d = a - of_int f
      in if d < 1 / 2 then f
         else if 1 / 2 < d then f + 1
         else if even f then f else f + 1)"

text \<open>Line 64 and line 65.\<close>

definition z_of :: "pick \<Rightarrow> int" where
  "z_of p = np_round (delay_pixel p) - 1"

definition x_of :: "pick \<Rightarrow> int" where
  "x_of p = frame p - 1"

text \<open>
  A bound of a Python slice on an axis of length \<open>n\<close>: a negative bound counts from the
  end, and the result is clipped to \<open>0..n\<close>. A slice never raises.
\<close>

definition slice_bound :: "nat \<Rightarrow> int \<Rightarrow> nat" where
  "slice_bound n k = (if k < 0 then nat (max (k + int n) 0) else nat (min k (int n)))"

text \<open>
  An integer index on an axis of length \<open>n\<close>: a negative index counts from the end, and
  an index outside \<open>-n..n-1\<close> raises \<^verbatim>\<open>IndexError\<close>.
\<close>

definition axis_index :: "nat \<Rightarrow> int \<Rightarrow> error + nat" where
  "axis_index n k =
     (let j = (if k < 0 then k + int n else k)
      in if j < 0 \<or> int n \<le> j then Inl IndexError else Inr (nat j))"

text \<open>\<^verbatim>\<open>rpb[z-2:z+2, val]\<close>.\<close>

definition window :: "matrix \<Rightarrow> int \<Rightarrow> int \<Rightarrow> error + flt list" where
  "window rpb z val =
     (case axis_index (shape1 rpb) val of
        Inl e \<Rightarrow> Inl e
      | Inr c \<Rightarrow>
          Inr (map (\<lambda>r. cell rpb r c)
                 [slice_bound (shape0 rpb) (z - 2) ..< slice_bound (shape0 rpb) (z + 2)]))"

text \<open>
  \<^verbatim>\<open>.max()\<close>: the largest element, not-a-number if there is one among them, and
  \<^verbatim>\<open>ValueError\<close> on an empty array.
\<close>

definition fmax2 :: "flt \<Rightarrow> flt \<Rightarrow> flt" where
  "fmax2 a b = (if a = NaN \<or> b = NaN then NaN else if flt_less a b then b else a)"

fun np_max :: "flt list \<Rightarrow> error + flt" where
  "np_max [] = Inl ValueError"
| "np_max (v # vs) = Inr (fold (\<lambda>w m. fmax2 m w) vs v)"

text \<open>Lines 70 to 73: the lookup, and not-a-number when anything in it raises.\<close>

definition echo_value :: "matrix \<Rightarrow> int \<Rightarrow> int \<Rightarrow> flt" where
  "echo_value rpb z val =
     (case window rpb z val of
        Inl e \<Rightarrow> NaN
      | Inr w \<Rightarrow> (case np_max w of Inl e \<Rightarrow> NaN | Inr m \<Rightarrow> m))"

text \<open>Lines 68 to 73: the loop over \<^verbatim>\<open>enumerate(x)\<close>, writing \<^verbatim>\<open>echo[i]\<close>.\<close>

fun echo_loop :: "matrix \<Rightarrow> int list \<Rightarrow> (nat \<times> int) list \<Rightarrow> flt list \<Rightarrow> flt list" where
  "echo_loop rpb z [] echo = echo"
| "echo_loop rpb z ((i, val) # rest) echo =
     echo_loop rpb z rest (echo[i := echo_value rpb (z ! i) val])"

definition echoes :: "pick list \<Rightarrow> matrix \<Rightarrow> flt list" where
  "echoes pik rpb =
     (let z = map z_of pik; x = map x_of pik
      in echo_loop rpb z (zip [0..<length x] x) (replicate (length x) (Fin 0)))"

text \<open>
  \<^verbatim>\<open>np.empty(n)\<close> allocates without initialising: the array holds whatever the memory
  held. The content of that memory is the parameter \<open>mem\<close>.
\<close>

definition np_empty :: "nat \<Rightarrow> (nat \<Rightarrow> flt) \<Rightarrow> flt list" where
  "np_empty n mem = map mem [0..<n]"

text \<open>
  Line 77, \<^verbatim>\<open>out[x] = echo\<close>: the values are stored in order, so the last value stored
  at an index stays; one index out of range raises.
\<close>

fun put :: "flt list \<Rightarrow> (int \<times> flt) list \<Rightarrow> error + flt list" where
  "put out [] = Inr out"
| "put out ((k, v) # kvs) =
     (case axis_index (length out) k of
        Inl e \<Rightarrow> Inl e
      | Inr j \<Rightarrow> put (out[j := v]) kvs)"

definition get_pik :: "pick list \<Rightarrow> matrix \<Rightarrow> (nat \<Rightarrow> flt) \<Rightarrow> error + flt list" where
  "get_pik pik rpb mem =
     put (np_empty (shape1 rpb) mem) (zip (map x_of pik) (echoes pik rpb))"

text \<open>The array arguments for which the sum of line 41 broadcasts against \<open>n\<close> values.\<close>

definition rng_fits :: "nat \<Rightarrow> rng_arg \<Rightarrow> bool" where
  "rng_fits n rng = (case rng of RArray rs \<Rightarrow> length rs = n \<or> length rs = 1 | _ \<Rightarrow> True)"

section \<open>Telemetry resampling (\<^verbatim>\<open>get_aux\<close>)\<close>

text \<open>
  A row of the telemetry table of \<^verbatim>\<open>raw.read_aux\<close>, with the columns \<^verbatim>\<open>get_aux\<close> reads.
\<close>

record aux_row =
  UTC :: flt
  lat :: flt
  lon :: flt
  radius :: flt
  vtan :: flt
  vrad :: flt
  roll :: flt
  pitch :: flt
  yaw :: flt
  HGAin :: flt
  HGAout :: flt
  SZA :: flt
  Mag_field :: flt
  Sun_dist :: flt

text \<open>A data frame: its named columns, in order.\<close>

type_synonym dataframe = "(string \<times> flt list) list"

text \<open>
  What the program takes from outside the repository: the spline fit and its evaluation at
  one point (\<^verbatim>\<open>scipy.interpolate.splrep\<close> and \<^verbatim>\<open>splev\<close>; \<^verbatim>\<open>splev\<close> evaluates the spline at
  each point of its argument), the local radius of the reference ellipsoid
  (\<^verbatim>\<open>planetbody.ellipsoid.lonlat2rad\<close> with \<^verbatim>\<open>mars.radius\<close>, applied point by point), the
  sliding estimator (\<^verbatim>\<open>rsr.utils.inline_estim\<close>), the plot of its result
  (\<^verbatim>\<open>rsr.utils.plot_inline\<close>, which returns nothing or raises), and the working directory.

  \<^verbatim>\<open>inline_rsr\<close> also reads the global names \<^verbatim>\<open>stat\<close> and \<^verbatim>\<open>inv\<close>. No source file
  defines them (\<^verbatim>\<open>_params.py\<close> does not), so with the sources alone both are \<open>None\<close> and
  reading one raises \<^verbatim>\<open>NameError\<close>; the \<^verbatim>\<open>params\<close> module of an installation may
  define them.
\<close>

record 'tck ext =
  splrep :: "real list \<Rightarrow> flt list \<Rightarrow> error + 'tck"
  splev_at :: "'tck \<Rightarrow> real \<Rightarrow> flt"
  lonlat2rad :: "flt \<Rightarrow> flt \<Rightarrow> flt"
  inline_estim :: "flt list \<Rightarrow> real \<Rightarrow> real \<Rightarrow> real \<Rightarrow> error + dataframe"
  plot_inline :: "dataframe \<Rightarrow> real \<Rightarrow> string \<Rightarrow> error option"
  getcwd :: string
  stat :: "string option"
  inv :: "string option"

definition ebind :: "'e + 'a \<Rightarrow> ('a \<Rightarrow> 'e + 'b) \<Rightarrow> 'e + 'b" where
  "ebind m f = (case m of Inl e \<Rightarrow> Inl e | Inr a \<Rightarrow> f a)"

text \<open>\<^verbatim>\<open>np.arange(n)\<close> and \<^verbatim>\<open>np.linspace(start, stop, num)\<close>.\<close>

definition arange :: "nat \<Rightarrow> real list" where
  "arange n = map real [0..<n]"

definition linspace :: "real \<Rightarrow> real \<Rightarrow> nat \<Rightarrow> real list" where
  "linspace start stop num =
     (if num = 1 then [start]
      else map (\<lambda>i. start + real i * ((stop - start) / real (num - 1))) [0..<num])"

text \<open>
  One channel: \<^verbatim>\<open>tck = splrep(x, col, s=0)\<close>, then \<^verbatim>\<open>splev(xnew, tck, der=0)\<close>. The fit
  has the default degree 3, and \<^verbatim>\<open>splrep\<close> raises \<^verbatim>\<open>TypeError\<close> (\<^verbatim>\<open>m > k must hold\<close>)
  unless there are more points than the degree; any other failure of the fit is the
  collaborator's.
\<close>

definition resample :: "'tck ext \<Rightarrow> real list \<Rightarrow> real list \<Rightarrow> flt list \<Rightarrow> error + flt list" where
  "resample E x xnew col =
     (if length x \<le> 3 then Inl TypeError
      else (case splrep E x col of
              Inl e \<Rightarrow> Inl e
            | Inr tck \<Rightarrow> Inr (map (splev_at E tck) xnew)))"

text \<open>Line 134, \<^verbatim>\<open>radius*1e3 - ellipsoid.lonlat2rad(lon, lat, mars.radius['val'])\<close>.\<close>

definition range_of :: "'tck ext \<Rightarrow> flt list \<Rightarrow> flt list \<Rightarrow> flt list \<Rightarrow> flt list" where
  "range_of E radius_new lon_new lat_new =
     map (\<lambda>(r, lo, la). fsub (fmul r (Fin 1000)) (lonlat2rad E lo la))
       (zip radius_new (zip lon_new lat_new))"

definition get_aux :: "'tck ext \<Rightarrow> aux_row list \<Rightarrow> matrix \<Rightarrow> error + dataframe" where
  "get_aux E aux rpb =
     (let xnew = arange (shape1 rpb);
          x = linspace 0 (real_of_int (int (shape1 rpb) - 1)) (length aux);
          spl = (\<lambda>f. resample E x xnew (map f aux))
      in ebind (spl lon) (\<lambda>lon_new.
         ebind (spl lat) (\<lambda>lat_new.
         ebind (spl radius) (\<lambda>radius_new.
         ebind (spl vtan) (\<lambda>vtan_new.
         ebind (spl vrad) (\<lambda>vrad_new.
         ebind (spl SZA) (\<lambda>sza_new.
         ebind (spl pitch) (\<lambda>pitch_new.
         ebind (spl yaw) (\<lambda>yaw_new.
         ebind (spl roll) (\<lambda>roll_new.
         ebind (spl Mag_field) (\<lambda>mag_new.
         ebind (spl HGAout) (\<lambda>HGAout_new.
         ebind (spl HGAin) (\<lambda>HGAin_new.
         ebind (spl Sun_dist) (\<lambda>sun_dist_new.
         Inr [(''lat'', lat_new), (''lon'', lon_new), (''radius'', radius_new),
              (''vtan'', vtan_new), (''vrad'', vrad_new), (''sza'', sza_new),
              (''pitch'', pitch_new), (''yaw'', yaw_new), (''roll'', roll_new),
              (''mag'', mag_new), (''HGAout'', HGAout_new), (''HGAin'', HGAin_new),
              (''sun_dist'', sun_dist_new),
              (''rng'', range_of E radius_new lon_new lat_new)]))))))))))))))"


section \<open>The pipeline (\<^verbatim>\<open>get_srf\<close>)\<close>

text \<open>Reading a column (\<^verbatim>\<open>aux.rng\<close>) and setting one (\<^verbatim>\<open>aux['amp'] = amp\<close>).\<close>

definition df_col :: "dataframe \<Rightarrow> string \<Rightarrow> error + flt list" where
  "df_col df name = (case map_of df name of None \<Rightarrow> Inl AttributeError | Some c \<Rightarrow> Inr c)"

definition df_len :: "dataframe \<Rightarrow> nat" where
  "df_len df = (case df of [] \<Rightarrow> 0 | (name, c) # rest \<Rightarrow> length c)"

definition df_set :: "dataframe \<Rightarrow> string \<Rightarrow> flt list \<Rightarrow> error + dataframe" where
  "df_set df name c =
     (if df \<noteq> [] \<and> length c \<noteq> df_len df then Inl ValueError
      else if name \<in> fst ` set df
        then Inr (map (\<lambda>(n, old). if n = name then (n, c) else (n, old)) df)
        else Inr (df @ [(name, c)]))"

text \<open>
  Lines 160 to 162: the two screens, each an update of \<^verbatim>\<open>pdb\<close>, and the linear
  amplitude \<^verbatim>\<open>10**(pdb/20.)\<close>.
\<close>

definition band_amp :: "flt list \<Rightarrow> flt list" where
  "band_amp pdb =
     (let pdb1 = map (\<lambda>v. if flt_less v (Fin (- 200)) then NaN else v) pdb;
          pdb2 = map (\<lambda>v. if flt_less (Fin 10) v then NaN else v) pdb1
      in map (\<lambda>v. fpow10 (fdiv v (Fin 20))) pdb2)"

text \<open>Lines 155 to 164: the table, before it is saved.\<close>

definition get_srf_table ::
  "'tck ext \<Rightarrow> aux_row list \<Rightarrow> pick list \<Rightarrow> matrix \<Rightarrow> (nat \<Rightarrow> flt) \<Rightarrow> error + dataframe" where
  "get_srf_table E aux pik rpb mem =
     ebind (get_aux E aux rpb) (\<lambda>aux_df.
     ebind (get_pik pik rpb mem) (\<lambda>pik_new.
     ebind (df_col aux_df ''rng'') (\<lambda>rng_new.
     ebind (snd (calibration pik_new (ct_c / frq) (RArray rng_new) (Fin abs_calib))) (\<lambda>pdb.
     df_set aux_df ''amp'' (band_amp pdb)))))"

text \<open>What the program writes to the file system, in order. A write is taken to succeed.\<close>

datatype fs_event = ToCsv string dataframe | SaveFig string

text \<open>\<^verbatim>\<open>str.zfill\<close>: zeros on the left up to the width, after a leading sign.\<close>

definition zfill :: "nat \<Rightarrow> string \<Rightarrow> string" where
  "zfill w s =
     (if w \<le> length s then s
      else (case s of
              [] \<Rightarrow> replicate w CHR ''0''
            | c # cs \<Rightarrow>
                if c = CHR ''+'' \<or> c = CHR ''-''
                then c # replicate (w - length s) CHR ''0'' @ cs
                else replicate (w - length s) CHR ''0'' @ s))"

definition srf_file :: "string \<Rightarrow> string" where
  "srf_file orbit = srf_path @ zfill 7 orbit @ ''.srf.txt''"

text \<open>
  \<^verbatim>\<open>get_srf(orbit, save)\<close> on the tables the readers return for the orbit: the result, and
  the files written.
\<close>

definition get_srf ::
  "'tck ext \<Rightarrow> aux_row list \<Rightarrow> pick list \<Rightarrow> matrix \<Rightarrow> (nat \<Rightarrow> flt) \<Rightarrow> string \<Rightarrow> bool
     \<Rightarrow> (error + dataframe) \<times> fs_event list" where
  "get_srf E aux pik rpb mem orbit save =
     (case get_srf_table E aux pik rpb mem of
        Inl e \<Rightarrow> (Inl e, [])
      | Inr df \<Rightarrow> (Inr df, if save then [ToCsv (srf_file orbit) df] else []))"

section \<open>The sliding estimator (\<^verbatim>\<open>inline_rsr\<close>)\<close>

text \<open>\<^verbatim>\<open>string.replace(s, old, new)\<close> for a non-empty \<open>old\<close>; \<open>k\<close> characters are still to skip.\<close>

fun replace_from :: "string \<Rightarrow> string \<Rightarrow> nat \<Rightarrow> string \<Rightarrow> string" where
  "replace_from old new k [] = []"
| "replace_from old new k (c # cs) =
     (if 0 < k then replace_from old new (k - 1) cs
      else if prefix old (c # cs) then new @ replace_from old new (length old - 1) cs
      else c # replace_from old new 0 cs)"

text \<open>
  Lines 199 and 200, the path of the statistics product without its extension: the names
  \<^verbatim>\<open>stat\<close> and \<^verbatim>\<open>inv\<close> are read in this order.
\<close>

definition rsr_file :: "'tck ext \<Rightarrow> string \<Rightarrow> error + string" where
  "rsr_file E orbit =
     (case stat E of
        None \<Rightarrow> Inl NameError
      | Some s \<Rightarrow>
          (case inv E of
             None \<Rightarrow> Inl NameError
           | Some v \<Rightarrow>
               Inr (replace_from ''code'' ''targ'' 0 (getcwd E) @ ''/rsr/'' @ zfill 7 orbit
                      @ ''.'' @ s @ ''.'' @ v)))"

text \<open>
  \<^verbatim>\<open>srf.ix[xo, name]\<close> with \<^verbatim>\<open>xo = np.round(b.xo)\<close>: the value of the column at each
  rounded position; a position that is not a row of the table gives a missing value.
\<close>

definition ix_lookup :: "flt list \<Rightarrow> flt list \<Rightarrow> flt list" where
  "ix_lookup c xo =
     map (\<lambda>l. case l of
                 Fin r \<Rightarrow> (let k = np_round r
                           in if 0 \<le> k \<and> k < int (length c) then c ! nat k else NaN)
               | _ \<Rightarrow> NaN) xo"

definition attach :: "dataframe \<Rightarrow> flt list \<Rightarrow> string \<Rightarrow> dataframe \<Rightarrow> error + dataframe" where
  "attach srf xo name b = ebind (df_col srf name) (\<lambda>c. df_set b name (ix_lookup c xo))"

text \<open>
  Lines 198 to 204, the branch \<^verbatim>\<open>if save is True\<close>: the path, the table written as text,
  the plot drawn, the figure saved. What was written before an exception stays written.
\<close>

definition save_rsr ::
  "'tck ext \<Rightarrow> string \<Rightarrow> dataframe \<Rightarrow> error option \<times> fs_event list" where
  "save_rsr E orbit b =
     (case rsr_file E orbit of
        Inl e \<Rightarrow> (Some e, [])
      | Inr save_fil \<Rightarrow>
          (case plot_inline E b frq (zfill 7 orbit) of
             Some e \<Rightarrow> (Some e, [ToCsv (save_fil @ ''.txt'') b])
           | None \<Rightarrow> (None, [ToCsv (save_fil @ ''.txt'') b, SaveFig (save_fil @ ''.png'')])))"

definition inline_rsr ::
  "'tck ext \<Rightarrow> aux_row list \<Rightarrow> pick list \<Rightarrow> matrix \<Rightarrow> (nat \<Rightarrow> flt) \<Rightarrow> string \<Rightarrow> real \<Rightarrow> real \<Rightarrow> bool
     \<Rightarrow> (error + dataframe) \<times> fs_event list" where
  "inline_rsr E aux pik rpb mem orbit winsize sampling save =
     (case get_srf E aux pik rpb mem orbit True of
        (Inl e, written) \<Rightarrow> (Inl e, written)
      | (Inr srf, written) \<Rightarrow>
          (case ebind (df_col srf ''amp'') (\<lambda>amp.
                ebind (inline_estim E amp frq winsize sampling) (\<lambda>b.
                ebind (df_col b ''xo'') (\<lambda>xo.
                ebind (attach srf xo ''lat'' b) (\<lambda>b1.
                ebind (attach srf xo ''lon'' b1) (\<lambda>b2.
                ebind (attach srf xo ''roll'' b2) (\<lambda>b3.
                ebind (attach srf xo ''rng'' b3) (\<lambda>b4.
                attach srf xo ''sza'' b4))))))) of
             Inl e \<Rightarrow> (Inl e, written)
           | Inr b \<Rightarrow>
               if save
               then (case save_rsr E orbit b of
                       (Some e, saved) \<Rightarrow> (Inl e, written @ saved)
                     | (None, saved) \<Rightarrow> (Inr b, written @ saved))
               else (Inr b, written)))"

section \<open>Inputs for the worked examples\<close>

text \<open>
  A waveform array with the 3600 delay samples of every file and \<open>n\<close> frames, whose value
  at delay sample \<open>r\<close> is \<open>r\<close> in every frame; and a memory that holds \<open>v\<close> everywhere.
\<close>

definition ramp_rpb :: "nat \<Rightarrow> matrix" where
  "ramp_rpb n = \<lparr>shape0 = 3600, shape1 = n, cell = (\<lambda>r c. Fin (real r))\<rparr>"

definition mem_all :: "flt \<Rightarrow> nat \<Rightarrow> flt" where
  "mem_all v = (\<lambda>j. v)"

text \<open>
  Collaborators for the worked examples. The telemetry of these examples is the same in
  every row, and the interpolating spline through equal samples is the constant function:
  the fit keeps the first sample, the evaluation returns it. The ellipsoid is a sphere of
  radius 3389500 m. The estimator returns one window, at position 0, and the plot does not
  raise. As in the sources, \<^verbatim>\<open>stat\<close> and \<^verbatim>\<open>inv\<close> are not defined.
\<close>

definition flat_ext :: "flt ext" where
  "flat_ext =
     \<lparr>splrep = (\<lambda>x y. if length x = length y then Inr (hd y) else Inl ExternalError),
      splev_at = (\<lambda>tck t. tck),
      lonlat2rad = (\<lambda>lo la. Fin 3389500),
      inline_estim = (\<lambda>amp f w s. Inr [(''xo'', [Fin 0])]),
      plot_inline = (\<lambda>b f title. None),
      getcwd = ''/home/user/code/sharad'',
      stat = None,
      inv = None\<rparr>"

text \<open>The same collaborators on an installation whose \<^verbatim>\<open>params\<close> module defines the two names.\<close>

definition site_ext :: "flt ext" where
  "site_ext = flat_ext\<lparr>stat := Some ''hk'', inv := Some ''spm''\<rparr>"

definition flat_row :: aux_row where
  "flat_row =
     \<lparr>UTC = Fin 0, lat = Fin (- 81), lon = Fin 198, radius = Fin 3700, vtan = Fin 3,
      vrad = Fin 0, roll = Fin 0, pitch = Fin 0, yaw = Fin 0, HGAin = Fin 0, HGAout = Fin 0,
      SZA = Fin 60, Mag_field = Fin 0, Sun_dist = Fin 1\<rparr>"

definition flat_aux :: "aux_row list" where
  "flat_aux = [flat_row, flat_row, flat_row, flat_row]"

text \<open>The resampled telemetry of the examples on \<open>n\<close> frames.\<close>

definition flat_df :: "nat \<Rightarrow> dataframe" where
  "flat_df n =
     [(''lat'', replicate n (Fin (- 81))), (''lon'', replicate n (Fin 198)),
      (''radius'', replicate n (Fin 3700)), (''vtan'', replicate n (Fin 3)),
      (''vrad'', replicate n (Fin 0)), (''sza'', replicate n (Fin 60)),
      (''pitch'', replicate n (Fin 0)), (''yaw'', replicate n (Fin 0)),
      (''roll'', replicate n (Fin 0)), (''mag'', replicate n (Fin 0)),
      (''HGAout'', replicate n (Fin 0)), (''HGAin'', replicate n (Fin 0)),
      (''sun_dist'', replicate n (Fin 1)), (''rng'', replicate n (Fin 310500))]"

text \<open>
  Pick tables: one pick, in frame 1; and three picks, whose windows begin before the first
  delay sample, run past the last one, and lie inside the array.
\<close>

definition one_pick :: "pick list" where
  "one_pick = [\<lparr>frame = 1, delay_pixel = 100\<rparr>]"

definition three_picks :: "pick list" where
  "three_picks =
     [\<lparr>frame = 1, delay_pixel = 1\<rparr>, \<lparr>frame = 2, delay_pixel = 3600\<rparr>,
      \<lparr>frame = 3, delay_pixel = 100\<rparr>]"


definition lagrange :: "(real \<times> real) list \<Rightarrow> real \<Rightarrow> real" where
  "lagrange pts t =
     sum_list (map (\<lambda>(xj, yj).
                 yj * prod_list (map (\<lambda>(xm, ym). (t - xm) / (xj - xm))
                                  (filter (\<lambda>(xm, ym). xm \<noteq> xj) pts))) pts)"




section \<open>Calibration\<close>

lemma zero_to_nan_length: "length (zero_to_nan val) = length val"
  by (simp add: zero_to_nan_def)

lemma zero_to_nan_nth:
  "i < length val \<Longrightarrow>
   zero_to_nan val ! i = (if flt_eq (val ! i) (Fin 0) then NaN else val ! i)"
  by (simp add: zero_to_nan_def)

lemma fadd_NaN_right: "fadd a NaN = NaN"
  by (cases a) simp_all

lemma fmul_NaN_right: "fmul a NaN = NaN"
  by (cases a) simp_all

text \<open>A missing value in the left operand of line 41 is a missing value of the sum.\<close>

lemma array_add_nan:
  assumes "array_add xs g = Inr out" "i < length xs" "i < length out" "xs ! i = NaN"
  shows "out ! i = NaN"
proof (cases g)
  case (Scalar b)
  with assms show ?thesis by auto
next
  case (Array ys)
  show ?thesis
  proof (cases "length xs = length ys")
    case True
    with assms Array show ?thesis by auto
  next
    case neq: False
    show ?thesis
    proof (cases "length ys = 1")
      case True
      with assms Array neq show ?thesis by auto
    next
      case False
      with assms Array neq have one: "length xs = 1"
        and out: "out = map (\<lambda>y. fadd (hd xs) y) ys"
        by (auto split: if_splits)
      from one assms(2) have "i = 0" by simp
      with one assms(4) have "hd xs = NaN" by (cases xs) simp_all
      with out assms(3) show ?thesis by simp
    qed
  qed
qed

lemma array_add_fits:
  assumes "rng_fits (length xs) rng"
  shows "\<exists>out. array_add xs (geometric_loss rng) = Inr out \<and> length out = length xs"
  using assms by (cases rng) (auto simp: rng_fits_def)

lemma calibration_length:
  assumes "snd (calibration val wl (RArray rs) ac) = Inr pdb" and "length rs = length val"
  shows "length pdb = length val"
  using assms by (auto simp: calibration_def Let_def zero_to_nan_length)

lemma calibration_returns:
  assumes "length rs = length val"
  shows "\<exists>pdb. snd (calibration val wl (RArray rs) ac) = Inr pdb \<and> length pdb = length val"
  using assms by (simp add: calibration_def Let_def zero_to_nan_length)

text \<open>
  Claim C4. An entry of the input that is exactly zero gives a missing value in the
  calibrated array, and so never minus infinity, whatever the range argument and the
  calibration constant are (infinite and missing ones included). The call returns an array
  of the length of the input whenever the range argument is absent, a scalar, or an array
  of that length or of length one.
\<close>

theorem calibration_zero_is_nan:
  assumes "i < length val" and "flt_eq (val ! i) (Fin 0)"
  shows "(\<forall>out. snd (calibration val wl rng ac) = Inr out \<and> i < length out
            \<longrightarrow> out ! i = NaN \<and> out ! i \<noteq> NInf)
       \<and> (rng_fits (length val) rng
            \<longrightarrow> (\<exists>out. snd (calibration val wl rng ac) = Inr out \<and> length out = length val))"
proof -
  let ?val3 = "map (\<lambda>v. fadd v ac) (map (\<lambda>v. fmul (Fin 10) (flog10 v)) (zero_to_nan val))"
  have snd_eq: "snd (calibration val wl rng ac) = array_add ?val3 (geometric_loss rng)"
    by (simp add: calibration_def Let_def)
  have len: "length ?val3 = length val"
    by (simp add: zero_to_nan_length)
  have "?val3 ! i = NaN"
    using assms by (simp add: zero_to_nan_length zero_to_nan_nth)
  then have a: "\<forall>out. snd (calibration val wl rng ac) = Inr out \<and> i < length out
                  \<longrightarrow> out ! i = NaN \<and> out ! i \<noteq> NInf"
    using array_add_nan [of ?val3 "geometric_loss rng" _ i] assms(1) len snd_eq by auto
  have b: "rng_fits (length val) rng
            \<longrightarrow> (\<exists>out. snd (calibration val wl rng ac) = Inr out \<and> length out = length val)"
    using array_add_fits [of ?val3 rng] len snd_eq by auto
  from a b show ?thesis by blast
qed

text \<open>
  An input with a zero and a range array with an infinite entry: the call returns two
  values, the first of them missing.
\<close>

theorem calibration_zero_is_nan_witness:
  "\<exists>out. snd (calibration [Fin 0, Fin 1] (ct_c / frq) (RArray [PInf, Fin 1000]) (Fin abs_calib))
            = Inr out
          \<and> length out = 2 \<and> out ! 0 = NaN"
  using calibration_zero_is_nan
          [of 0 "[Fin 0, Fin 1]" "ct_c / frq" "RArray [PInf, Fin 1000]" "Fin abs_calib"]
  by (auto simp: flt_eq_def rng_fits_def)

text \<open>
  Claim C9. \<^verbatim>\<open>calibration\<close> writes into the array it is given: after the call, an entry
  of the caller's array that was exactly zero holds a missing value, so an array with a
  zero entry (the echo sequence that \<^verbatim>\<open>get_srf\<close> passes, for one) is not the array it
  was before the call. The length does not change.
\<close>

theorem calibration_overwrites_zeros:
  assumes "i < length val" and "flt_eq (val ! i) (Fin 0)"
  shows "fst (calibration val wl rng ac) ! i = NaN
       \<and> length (fst (calibration val wl rng ac)) = length val
       \<and> fst (calibration val wl rng ac) \<noteq> val"
proof -
  have f: "fst (calibration val wl rng ac) = zero_to_nan val"
    by (simp add: calibration_def Let_def)
  have n: "zero_to_nan val ! i = NaN"
    using assms by (simp add: zero_to_nan_nth)
  have "val ! i \<noteq> NaN"
    using assms(2) by (simp add: flt_eq_def)
  with n have "zero_to_nan val \<noteq> val" by metis
  with f n show ?thesis by (simp add: zero_to_nan_length)
qed

text \<open>The array \<open>[3, 0]\<close> is \<open>[3, NaN]\<close> after the call.\<close>

theorem calibration_overwrites_zeros_witness:
  "fst (calibration [Fin 3, Fin 0] (ct_c / frq) RFalse (Fin abs_calib)) ! 1 = NaN
   \<and> fst (calibration [Fin 3, Fin 0] (ct_c / frq) RFalse (Fin abs_calib)) \<noteq> [Fin 3, Fin 0]"
  using calibration_overwrites_zeros [of 1 "[Fin 3, Fin 0]" "ct_c / frq" RFalse "Fin abs_calib"]
  by (simp add: flt_eq_def)

section \<open>Echo extraction\<close>

subsection \<open>The loop fills \<^verbatim>\<open>echo\<close> with one value per pick\<close>

lemma echo_loop_length: "length (echo_loop rpb z ixs echo) = length echo"
  by (induction ixs arbitrary: echo) auto

lemma echo_loop_nth:
  assumes "distinct (map fst ixs)" and "j < length echo"
  shows "echo_loop rpb z ixs echo ! j =
           (case map_of ixs j of None \<Rightarrow> echo ! j | Some v \<Rightarrow> echo_value rpb (z ! j) v)"
  using assms
proof (induction ixs arbitrary: echo)
  case Nil
  then show ?case by simp
next
  case (Cons iv rest)
  obtain i v where iv: "iv = (i, v)" by (cases iv)
  from Cons.prems have d: "distinct (map fst rest)" and notin: "i \<notin> fst ` set rest"
    by (auto simp: iv)
  have len: "j < length (echo[i := echo_value rpb (z ! i) v])"
    using Cons.prems(2) by simp
  show ?case
  proof (cases "i = j")
    case True
    with notin have "map_of rest j = None"
      by (simp add: map_of_eq_None_iff)
    with True Cons.IH [OF d len] Cons.prems(2) show ?thesis
      by (simp add: iv)
  next
    case False
    with Cons.IH [OF d len] show ?thesis
      by (simp add: iv split: option.splits)
  qed
qed

lemma map_of_enumerate:
  "j < length xs \<Longrightarrow> map_of (zip [0..<length xs] xs) j = Some (xs ! j)"
  using map_of_zip_nth [of "[0..<length xs]" xs j] by simp

lemma echoes_eq: "echoes pik rpb = map (\<lambda>p. echo_value rpb (z_of p) (x_of p)) pik"
proof (rule nth_equalityI)
  show "length (echoes pik rpb) = length (map (\<lambda>p. echo_value rpb (z_of p) (x_of p)) pik)"
    by (simp add: echoes_def Let_def echo_loop_length)
next
  fix j assume "j < length (echoes pik rpb)"
  then have j: "j < length pik"
    by (simp add: echoes_def Let_def echo_loop_length)
  have d: "distinct (map fst (zip [0..<length (map x_of pik)] (map x_of pik)))"
    by simp
  have "echoes pik rpb ! j = echo_value rpb (map z_of pik ! j) (map x_of pik ! j)"
    using echo_loop_nth [OF d, of j "replicate (length (map x_of pik)) (Fin 0)" rpb "map z_of pik"]
      map_of_enumerate [of j "map x_of pik"] j
    by (simp add: echoes_def Let_def)
  with j show "echoes pik rpb ! j = map (\<lambda>p. echo_value rpb (z_of p) (x_of p)) pik ! j"
    by simp
qed

subsection \<open>The assignment \<^verbatim>\<open>out[x] = echo\<close>\<close>

lemma axis_index_bound: "axis_index n k = Inr j \<Longrightarrow> j < n"
  by (auto simp: axis_index_def Let_def split: if_splits)

lemma axis_index_ok: "- int n \<le> k \<Longrightarrow> k < int n \<Longrightarrow> \<exists>j. axis_index n k = Inr j"
  by (auto simp: axis_index_def Let_def)

lemma put_length: "put out kvs = Inr r \<Longrightarrow> length r = length out"
proof (induction kvs arbitrary: out)
  case Nil
  then show ?case by simp
next
  case (Cons kv kvs)
  obtain k v where kv: "kv = (k, v)" by (cases kv)
  from Cons.prems obtain j where "axis_index (length out) k = Inr j"
    and "put (out[j := v]) kvs = Inr r"
    by (auto simp: kv split: sum.splits)
  with Cons.IH [of "out[j := v]"] show ?case by simp
qed

lemma put_ok:
  assumes "\<forall>k \<in> fst ` set kvs. - int (length out) \<le> k \<and> k < int (length out)"
  shows "\<exists>r. put out kvs = Inr r"
  using assms
proof (induction kvs arbitrary: out)
  case Nil
  then show ?case by simp
next
  case (Cons kv kvs)
  obtain k v where kv: "kv = (k, v)" by (cases kv)
  from Cons.prems obtain j where j: "axis_index (length out) k = Inr j"
    using axis_index_ok [of "length out" k] by (auto simp: kv)
  have "\<exists>r. put (out[j := v]) kvs = Inr r"
    using Cons.prems by (intro Cons.IH) (auto simp: kv)
  with j show ?case by (simp add: kv)
qed

lemma put_untouched:
  assumes "put out kvs = Inr r" and "\<forall>k \<in> fst ` set kvs. axis_index (length out) k \<noteq> Inr j"
  shows "r ! j = out ! j"
  using assms
proof (induction kvs arbitrary: out)
  case Nil
  then show ?case by simp
next
  case (Cons kv kvs)
  obtain k v where kv: "kv = (k, v)" by (cases kv)
  from Cons.prems(1) obtain j' where j': "axis_index (length out) k = Inr j'"
    and rest: "put (out[j' := v]) kvs = Inr r"
    by (auto simp: kv split: sum.splits)
  from Cons.prems(2) j' have ne: "j' \<noteq> j" by (auto simp: kv)
  have "r ! j = (out[j' := v]) ! j"
    using Cons.prems(2) by (intro Cons.IH [OF rest]) (auto simp: kv)
  with ne show ?case by simp
qed

lemma put_last:
  assumes "put out kvs = Inr r" and "i < length kvs"
    and "axis_index (length out) (fst (kvs ! i)) = Inr j"
    and "\<forall>i'. i < i' \<and> i' < length kvs \<longrightarrow> axis_index (length out) (fst (kvs ! i')) \<noteq> Inr j"
  shows "r ! j = snd (kvs ! i)"
  using assms
proof (induction kvs arbitrary: out i)
  case Nil
  then show ?case by simp
next
  case (Cons kv kvs)
  obtain k v where kv: "kv = (k, v)" by (cases kv)
  from Cons.prems(1) obtain j' where j': "axis_index (length out) k = Inr j'"
    and rest: "put (out[j' := v]) kvs = Inr r"
    by (auto simp: kv split: sum.splits)
  show ?case
  proof (cases i)
    case 0
    with Cons.prems(3) j' have jj: "j' = j" by (simp add: kv)
    have later: "\<forall>k' \<in> fst ` set kvs. axis_index (length (out[j' := v])) k' \<noteq> Inr j"
    proof
      fix k' assume "k' \<in> fst ` set kvs"
      then obtain m where m: "m < length kvs" and km: "k' = fst (kvs ! m)"
        by (auto simp: in_set_conv_nth)
      from Cons.prems(4) [rule_format, of "Suc m"] 0 m km
      show "axis_index (length (out[j' := v])) k' \<noteq> Inr j" by simp
    qed
    have "j < length out" using j' jj axis_index_bound by blast
    with put_untouched [OF rest later] jj 0 show ?thesis by (simp add: kv)
  next
    case (Suc n)
    have "r ! j = snd (kvs ! n)"
    proof (rule Cons.IH [OF rest])
      show "n < length kvs" using Cons.prems(2) Suc by simp
      show "axis_index (length (out[j' := v])) (fst (kvs ! n)) = Inr j"
        using Cons.prems(3) Suc by simp
      show "\<forall>i'. n < i' \<and> i' < length kvs
              \<longrightarrow> axis_index (length (out[j' := v])) (fst (kvs ! i')) \<noteq> Inr j"
      proof (intro allI impI)
        fix i' assume "n < i' \<and> i' < length kvs"
        with Cons.prems(4) [rule_format, of "Suc i'"] Suc
        show "axis_index (length (out[j' := v])) (fst (kvs ! i')) \<noteq> Inr j" by simp
      qed
    qed
    with Suc show ?thesis by simp
  qed
qed

lemma get_pik_eq:
  "get_pik pik rpb mem =
     put (np_empty (shape1 rpb) mem)
       (zip (map x_of pik) (map (\<lambda>p. echo_value rpb (z_of p) (x_of p)) pik))"
  by (simp add: get_pik_def echoes_eq)

lemma get_pik_length:
  assumes "get_pik pik rpb mem = Inr out"
  shows "length out = shape1 rpb"
  using assms put_length [of "np_empty (shape1 rpb) mem" _ out]
  by (simp add: get_pik_def np_empty_def)

lemma get_pik_returns:
  assumes "\<forall>p \<in> set pik. - int (shape1 rpb) \<le> x_of p \<and> x_of p < int (shape1 rpb)"
  shows "\<exists>out. get_pik pik rpb mem = Inr out"
proof -
  have "\<forall>k \<in> fst ` set (zip (map x_of pik) (echoes pik rpb)).
          - int (length (np_empty (shape1 rpb) mem)) \<le> k
          \<and> k < int (length (np_empty (shape1 rpb) mem))"
    using assms by (auto simp: np_empty_def dest!: set_zip_leftD)
  then show ?thesis
    unfolding get_pik_def by (rule put_ok)
qed

text \<open>An index that no pick addresses keeps what the memory held.\<close>

lemma get_pik_unpicked:
  assumes "get_pik pik rpb mem = Inr out" and "j < shape1 rpb"
    and "\<forall>p \<in> set pik. axis_index (shape1 rpb) (x_of p) \<noteq> Inr j"
  shows "out ! j = mem j"
proof -
  have "\<forall>k \<in> fst ` set (zip (map x_of pik) (echoes pik rpb)).
          axis_index (length (np_empty (shape1 rpb) mem)) k \<noteq> Inr j"
    using assms(3) by (auto simp: np_empty_def dest!: set_zip_leftD)
  with assms(1) have "out ! j = np_empty (shape1 rpb) mem ! j"
    unfolding get_pik_def by (rule put_untouched)
  with assms(2) show ?thesis by (simp add: np_empty_def)
qed

lemma get_pik_last_record:
  assumes "get_pik pik rpb mem = Inr out" and "i < length pik"
    and "axis_index (shape1 rpb) (x_of (pik ! i)) = Inr j"
    and "\<forall>i'. i < i' \<and> i' < length pik \<longrightarrow> axis_index (shape1 rpb) (x_of (pik ! i')) \<noteq> Inr j"
  shows "out ! j = echo_value rpb (z_of (pik ! i)) (x_of (pik ! i))"
proof -
  let ?kvs = "zip (map x_of pik) (map (\<lambda>p. echo_value rpb (z_of p) (x_of p)) pik)"
  have p: "put (np_empty (shape1 rpb) mem) ?kvs = Inr out"
    using assms(1) by (simp add: get_pik_eq)
  have n: "length (np_empty (shape1 rpb) mem) = shape1 rpb"
    by (simp add: np_empty_def)
  have "out ! j = snd (?kvs ! i)"
  proof (rule put_last [OF p])
    show "i < length ?kvs" using assms(2) by simp
    show "axis_index (length (np_empty (shape1 rpb) mem)) (fst (?kvs ! i)) = Inr j"
      using assms(2,3) by (simp add: n)
    show "\<forall>i'. i < i' \<and> i' < length ?kvs
            \<longrightarrow> axis_index (length (np_empty (shape1 rpb) mem)) (fst (?kvs ! i')) \<noteq> Inr j"
      using assms(4) by (simp add: n)
  qed
  with assms(2) show ?thesis by simp
qed

subsection \<open>The window\<close>

lemma np_round_int [simp]: "np_round (of_int k) = k"
  by (simp add: np_round_def Let_def)

lemma np_round_numeral [simp]: "np_round (numeral k) = numeral k"
  using np_round_int [of "numeral k"] by simp

lemma np_round_1: "np_round 1 = 1"
  using np_round_int [of 1] by simp

lemma slice_in: "0 \<le> k \<Longrightarrow> slice_bound n k = min (nat k) n"
  by (auto simp: slice_bound_def)

lemma window_clipped:
  assumes "axis_index (shape1 rpb) x = Inr j" and "2 \<le> z"
  shows "window rpb z x =
           Inr (map (\<lambda>r. cell rpb r j) [min (nat (z - 2)) (shape0 rpb) ..< min (nat (z + 2)) (shape0 rpb)])"
  using assms by (simp add: window_def slice_in)

lemma echo_value_clipped:
  assumes "axis_index (shape1 rpb) x = Inr j" and "2 \<le> z" and "z - 2 < int (shape0 rpb)"
  shows "np_max (map (\<lambda>r. cell rpb r j) [nat (z - 2) ..< min (nat (z + 2)) (shape0 rpb)])
           = Inr (echo_value rpb z x)"
proof -
  have lo: "min (nat (z - 2)) (shape0 rpb) = nat (z - 2)"
    using assms(2,3) by simp
  have ne: "nat (z - 2) < min (nat (z + 2)) (shape0 rpb)"
    using assms(2,3) by simp
  then obtain v vs where w: "map (\<lambda>r. cell rpb r j) [nat (z - 2) ..< min (nat (z + 2)) (shape0 rpb)] = v # vs"
    by (cases "map (\<lambda>r. cell rpb r j) [nat (z - 2) ..< min (nat (z + 2)) (shape0 rpb)]") auto
  show ?thesis
    using window_clipped [OF assms(1,2)] by (simp add: echo_value_def lo w)
qed

lemma echo_value_before_start:
  assumes "- 2 \<le> z" and "z < 2" and "4 \<le> shape0 rpb"
  shows "echo_value rpb z x = NaN"
proof (cases "axis_index (shape1 rpb) x")
  case (Inl e)
  then show ?thesis by (simp add: echo_value_def window_def)
next
  case (Inr j)
  have "slice_bound (shape0 rpb) (z + 2) \<le> slice_bound (shape0 rpb) (z - 2)"
    using assms by (auto simp: slice_bound_def)
  then have e: "[slice_bound (shape0 rpb) (z - 2) ..< slice_bound (shape0 rpb) (z + 2)] = []"
    by simp
  show ?thesis unfolding echo_value_def window_def Inr e by simp
qed

lemma echo_value_past_end:
  assumes "int (shape0 rpb) \<le> z - 2"
  shows "echo_value rpb z x = NaN"
proof (cases "axis_index (shape1 rpb) x")
  case (Inl e)
  then show ?thesis by (simp add: echo_value_def window_def)
next
  case (Inr j)
  have "slice_bound (shape0 rpb) (z + 2) \<le> slice_bound (shape0 rpb) (z - 2)"
    using assms by (auto simp: slice_bound_def)
  then have e: "[slice_bound (shape0 rpb) (z - 2) ..< slice_bound (shape0 rpb) (z + 2)] = []"
    by simp
  show ?thesis unfolding echo_value_def window_def Inr e by simp
qed

lemma pik_run: "get_pik one_pick (ramp_rpb 2) (mem_all v) = Inr [Fin 100, v]"
proof -
  have "echo_value (ramp_rpb 2) 99 0 = Fin 100"
    by (simp add: echo_value_def window_def axis_index_def slice_bound_def ramp_rpb_def fmax2_def)
  then show ?thesis
    by (simp add: one_pick_def get_pik_eq z_of_def x_of_def np_empty_def mem_all_def axis_index_def
        ramp_rpb_def upt_rec)
qed

lemma three_run: "get_pik three_picks (ramp_rpb 3) (mem_all (Fin 0)) = Inr [NaN, Fin 3599, Fin 100]"
proof -
  have e: "echo_value (ramp_rpb 3) 0 0 = NaN" "echo_value (ramp_rpb 3) 3599 1 = Fin 3599"
    "echo_value (ramp_rpb 3) 99 2 = Fin 100"
    by (simp_all add: echo_value_def window_def axis_index_def slice_bound_def ramp_rpb_def fmax2_def)
  have x: "map x_of three_picks = [0, 1, 2]" and z: "map z_of three_picks = [0, 3599, 99]"
    by (simp_all add: three_picks_def x_of_def z_of_def np_round_1)
  have "map (\<lambda>p. echo_value (ramp_rpb 3) (z_of p) (x_of p)) three_picks = [NaN, Fin 3599, Fin 100]"
    using e by (simp add: three_picks_def x_of_def z_of_def np_round_1)
  then show ?thesis
    unfolding get_pik_eq x
    by (simp add: np_empty_def mem_all_def axis_index_def ramp_rpb_def upt_rec)
qed

text \<open>
  Claim C1 says that an along-track index absent from the pick table holds zero in the
  output of \<^verbatim>\<open>get_pik\<close>. The output array is allocated with \<^verbatim>\<open>np.empty\<close> (the array
  \<^verbatim>\<open>echo\<close>, three lines above, with \<^verbatim>\<open>np.zeros\<close>), so such an index holds what the memory
  held. With two frames, one pick, in frame 1 (index 0), and a memory that holds 7, the
  output holds the echo at index 0 and 7 at index 1.
\<close>

theorem get_pik_unpicked_not_zero:
  "map x_of one_pick = [0]
   \<and> get_pik one_pick (ramp_rpb 2) (mem_all (Fin 7)) = Inr [Fin 100, Fin 7]"
  unfolding pik_run by (simp add: one_pick_def x_of_def)

text \<open>
  Claim C3, as the code has it. Take a pick such that no later pick of the table addresses
  the same along-track index \<open>j\<close>, and let \<open>z\<close> be its rounded delay pixel minus one. If
  the window \<open>[z-2, z+2)\<close> begins inside the array (\<open>2 \<le> z\<close> and \<open>z - 2\<close> below the number of
  delay samples), the value at \<open>j\<close> is the maximum of the waveform of frame \<open>j\<close> over the
  window clipped to the last delay sample. If the window begins before the first delay
  sample (\<open>-2 \<le> z < 2\<close>, on an array of four delay samples or more) or at or after the end
  of the array, the value at \<open>j\<close> is missing. The value at \<open>j\<close> depends on no other pick.
\<close>

theorem get_pik_value:
  assumes "get_pik pik rpb mem = Inr out" and "i < length pik"
    and "axis_index (shape1 rpb) (x_of (pik ! i)) = Inr j"
    and "\<forall>i'. i < i' \<and> i' < length pik \<longrightarrow> axis_index (shape1 rpb) (x_of (pik ! i')) \<noteq> Inr j"
  shows "(2 \<le> z_of (pik ! i) \<and> z_of (pik ! i) - 2 < int (shape0 rpb)
            \<longrightarrow> np_max (map (\<lambda>r. cell rpb r j)
                          [nat (z_of (pik ! i) - 2) ..< min (nat (z_of (pik ! i) + 2)) (shape0 rpb)])
                  = Inr (out ! j))
       \<and> ((- 2 \<le> z_of (pik ! i) \<and> z_of (pik ! i) < 2 \<and> 4 \<le> shape0 rpb)
            \<or> int (shape0 rpb) \<le> z_of (pik ! i) - 2
            \<longrightarrow> out ! j = NaN)"
  using get_pik_last_record [OF assms] echo_value_clipped [OF assms(3)]
    echo_value_before_start [of "z_of (pik ! i)" rpb "x_of (pik ! i)"]
    echo_value_past_end [of rpb "z_of (pik ! i)" "x_of (pik ! i)"]
  by auto

text \<open>
  Three picks on three frames: the first window begins before the first delay sample, the
  second runs past the last one and is clipped to the samples 3597 to 3599, the third lies
  inside the array.
\<close>

theorem get_pik_value_witness:
  "get_pik three_picks (ramp_rpb 3) (mem_all (Fin 0)) = Inr [NaN, Fin 3599, Fin 100]
   \<and> np_max (map (\<lambda>r. cell (ramp_rpb 3) r 1) [3597 ..< 3600]) = Inr (Fin 3599)
   \<and> [NaN, Fin 3599, Fin 100] ! 0 = NaN"
proof -
  have s: "shape0 (ramp_rpb 3) = 3600" "shape1 (ramp_rpb 3) = 3"
    by (simp_all add: ramp_rpb_def)
  have z: "z_of (three_picks ! 0) = 0" "z_of (three_picks ! 1) = 3599"
    by (simp_all add: three_picks_def z_of_def np_round_1)
  have two: "\<And>i'::nat. 1 < i' \<and> i' < length three_picks \<Longrightarrow> i' = 2"
    by (simp add: three_picks_def)
  have one_two: "\<And>i'::nat. 0 < i' \<and> i' < length three_picks \<Longrightarrow> i' = 1 \<or> i' = 2"
    by (auto simp: three_picks_def)
  have later1: "\<forall>i'. 1 < i' \<and> i' < length three_picks
                 \<longrightarrow> axis_index (shape1 (ramp_rpb 3)) (x_of (three_picks ! i')) \<noteq> Inr 1"
  proof (intro allI impI)
    fix i' :: nat assume "1 < i' \<and> i' < length three_picks"
    then have "i' = 2" by (rule two)
    then show "axis_index (shape1 (ramp_rpb 3)) (x_of (three_picks ! i')) \<noteq> Inr 1"
      by (simp add: s three_picks_def x_of_def axis_index_def)
  qed
  have later0: "\<forall>i'. 0 < i' \<and> i' < length three_picks
                 \<longrightarrow> axis_index (shape1 (ramp_rpb 3)) (x_of (three_picks ! i')) \<noteq> Inr 0"
  proof (intro allI impI)
    fix i' :: nat assume "0 < i' \<and> i' < length three_picks"
    then have "i' = 1 \<or> i' = 2" by (rule one_two)
    then show "axis_index (shape1 (ramp_rpb 3)) (x_of (three_picks ! i')) \<noteq> Inr 0"
      by (auto simp: s three_picks_def x_of_def axis_index_def)
  qed
  have len: "1 < length three_picks" "0 < length three_picks"
    by (simp_all add: three_picks_def)
  have col: "axis_index (shape1 (ramp_rpb 3)) (x_of (three_picks ! 1)) = Inr 1"
    "axis_index (shape1 (ramp_rpb 3)) (x_of (three_picks ! 0)) = Inr 0"
    by (simp_all add: s three_picks_def x_of_def axis_index_def)
  from get_pik_value [OF three_run len(1) col(1) later1]
  have "np_max (map (\<lambda>r. cell (ramp_rpb 3) r 1) [3597 ..< 3600]) = Inr (Fin 3599)"
    unfolding z s by simp
  moreover from get_pik_value [OF three_run len(2) col(2) later0]
  have "[NaN, Fin 3599, Fin 100] ! 0 = NaN"
    unfolding z s by simp
  ultimately show ?thesis using three_run by simp
qed

text \<open>
  Claim C3, as stated, gives a missing value to a window that falls outside the array.
  The window of a pick with \<open>z = 3599\<close> is \<open>[3597, 3601)\<close>, past the 3600 delay samples;
  the slice is clipped and the value is the maximum of the three samples left.
\<close>

theorem get_pik_window_counterexample:
  "int (shape0 (ramp_rpb 1)) < z_of \<lparr>frame = 1, delay_pixel = 3600\<rparr> + 2
   \<and> get_pik [\<lparr>frame = 1, delay_pixel = 3600\<rparr>] (ramp_rpb 1) (mem_all (Fin 0)) = Inr [Fin 3599]"
proof -
  have "echo_value (ramp_rpb 1) 3599 0 = Fin 3599"
    by (simp add: echo_value_def window_def axis_index_def slice_bound_def ramp_rpb_def fmax2_def)
  then show ?thesis
    by (simp add: get_pik_eq z_of_def x_of_def np_empty_def mem_all_def axis_index_def ramp_rpb_def)
qed

section \<open>The plausible band and the linear amplitude\<close>

lemma band_amp_length: "length (band_amp pdb) = length pdb"
  by (simp add: band_amp_def Let_def)

lemma amp_one_nan:
  "fpow10 (fdiv (if flt_less (Fin 10) (if flt_less v (Fin (- 200)) then NaN else v) then NaN
                  else (if flt_less v (Fin (- 200)) then NaN else v)) (Fin 20)) = NaN
   \<longleftrightarrow> v = NaN \<or> flt_less v (Fin (- 200)) \<or> flt_less (Fin 10) v"
  by (cases v) auto

lemma band_amp_nth:
  assumes "i < length pdb"
  shows "band_amp pdb ! i = NaN
         \<longleftrightarrow> pdb ! i = NaN \<or> flt_less (pdb ! i) (Fin (- 200)) \<or> flt_less (Fin 10) (pdb ! i)"
  using assms amp_one_nan [of "pdb ! i"] by (simp add: band_amp_def Let_def)

subsection \<open>Bounds on \<open>10 powr (- 142.43 / 20)\<close>\<close>

lemma powr_rat_upper:
  fixes y :: real
  assumes "0 < y" "0 < q" "(10::real) ^ p < y ^ q"
  shows "10 powr (real p / real q) < y"
proof -
  have "(10 powr (real p / real q)) ^ q = 10 powr (real p / real q * real q)"
    by (simp add: powr_powr flip: powr_realpow)
  also have "\<dots> = 10 powr (real p)" using assms(2) by simp
  also have "\<dots> = 10 ^ p" by (simp add: powr_realpow)
  finally have "(10 powr (real p / real q)) ^ q < y ^ q" using assms(3) by simp
  then show ?thesis using assms(1) by (meson less_eq_real_def power_less_imp_less_base)
qed

lemma powr_rat_lower:
  fixes y :: real
  assumes "0 < y" "0 < q" "y ^ q < (10::real) ^ p"
  shows "y < 10 powr (real p / real q)"
proof -
  have "(10 powr (real p / real q)) ^ q = 10 powr (real p / real q * real q)"
    by (simp add: powr_powr flip: powr_realpow)
  also have "\<dots> = 10 powr (real p)" using assms(2) by simp
  also have "\<dots> = 10 ^ p" by (simp add: powr_realpow)
  finally have "y ^ q < (10 powr (real p / real q)) ^ q" using assms(3) by simp
  then show ?thesis by (meson less_eq_real_def power_less_imp_less_base powr_ge_zero)
qed

lemma amp_split: "(10::real) powr (- 14243 / 2000) = 10 powr (1757 / 2000) / 10 ^ 8"
proof -
  have "(10::real) powr (- 14243 / 2000) = 10 powr (1757 / 2000 - 8)" by simp
  also have "\<dots> = 10 powr (1757 / 2000) / 10 powr 8" by (rule powr_diff)
  also have "(10::real) powr 8 = 10 ^ 8" by (simp add: powr_numeral del: power_numeral)
  finally show ?thesis .
qed

lemma mid_upper: "(10::real) powr (1757 / 2000) < 7565 / 1000"
proof -
  have "(10::real) ^ 29 < (7565 / 1000) ^ 33"
    by (simp add: power_divide)
  then have "(10::real) powr (real 29 / real 33) < 7565 / 1000"
    by (intro powr_rat_upper) simp_all
  moreover have "(10::real) powr (1757 / 2000) < 10 powr (real 29 / real 33)"
    by (rule powr_less_mono) simp_all
  ultimately show ?thesis by (rule less_trans [rotated])
qed

lemma mid_lower: "7555 / 1000 < (10::real) powr (1757 / 2000)"
proof -
  have "((7555::real) / 1000) ^ 74 < 10 ^ 65"
    by (simp add: power_divide)
  then have "7555 / 1000 < (10::real) powr (real 65 / real 74)"
    by (intro powr_rat_lower) simp_all
  moreover have "(10::real) powr (real 65 / real 74) < 10 powr (1757 / 2000)"
    by (rule powr_less_mono) simp_all
  ultimately show ?thesis by (rule less_trans)
qed

lemma amp_bounds:
  "7555 / 10 ^ 11 < (10::real) powr (- 14243 / 2000)"
  "(10::real) powr (- 14243 / 2000) < 7565 / 10 ^ 11"
  using mid_lower mid_upper unfolding amp_split by (simp_all add: field_simps)

lemma reference_calibrated:
  "snd (calibration [Fin 1] wl RFalse (Fin abs_calib)) = Inr [Fin (- 14243 / 100)]"
  by (simp add: calibration_def zero_to_nan_def flt_eq_def abs_calib_def)

lemma reference_amp: "band_amp [Fin (- 14243 / 100)] = [Fin (10 powr (- 14243 / 2000))]"
  by (simp add: band_amp_def)

text \<open>
  Claim C6, with the amplitude the code computes. The raw value 1.0 with no range and the
  calibration constant -142.43 is calibrated to -142.43 dB, which is inside the band (not
  below -200, not above 10), and its linear amplitude \<open>10 powr (- 142.43 / 20)\<close> lies
  between 7.555e-8 and 7.565e-8: it is 7.56e-8 to three significant figures.
\<close>

theorem reference_scenario:
  "snd (calibration [Fin 1] wl RFalse (Fin abs_calib)) = Inr [Fin (- 14243 / 100)]
   \<and> \<not> flt_less (Fin (- 14243 / 100)) (Fin (- 200)) \<and> \<not> flt_less (Fin 10) (Fin (- 14243 / 100))
   \<and> flt_less (Fin (7555 / 10 ^ 11)) (band_amp [Fin (- 14243 / 100)] ! 0)
   \<and> flt_less (band_amp [Fin (- 14243 / 100)] ! 0) (Fin (7565 / 10 ^ 11))"
  using amp_bounds unfolding reference_calibrated reference_amp by simp

text \<open>
  Claim C6 gives the amplitude as 7.567e-8. The amplitude is below 7.565e-8, so it is not
  in the interval from 7.5665e-8 that rounds to 7.567e-8.
\<close>

theorem reference_scenario_counterexample:
  "snd (calibration [Fin 1] (ct_c / frq) RFalse (Fin abs_calib)) = Inr [Fin (- 14243 / 100)]
   \<and> flt_less (band_amp [Fin (- 14243 / 100)] ! 0) (Fin (7565 / 10 ^ 11))
   \<and> \<not> flt_le (Fin (75665 / 10 ^ 12)) (band_amp [Fin (- 14243 / 100)] ! 0)"
  using amp_bounds(2) unfolding reference_calibrated reference_amp
  by (simp add: flt_le_def flt_eq_def)

section \<open>The pipeline\<close>

lemma ebind_Inr: "ebind m f = Inr b \<longleftrightarrow> (\<exists>a. m = Inr a \<and> f a = Inr b)"
  by (cases m) (simp_all add: ebind_def)

lemma resample_length: "resample E x xnew c = Inr v \<Longrightarrow> length v = length xnew"
  by (auto simp: resample_def split: sum.splits if_splits)

lemma range_of_length:
  "length r = n \<Longrightarrow> length lo = n \<Longrightarrow> length la = n \<Longrightarrow> length (range_of E r lo la) = n"
  by (simp add: range_of_def)

text \<open>The table of \<^verbatim>\<open>get_aux\<close>: its fourteen columns, each with one value per frame.\<close>

lemma get_aux_shape:
  assumes "get_aux E aux rpb = Inr df"
  shows "map fst df = [''lat'', ''lon'', ''radius'', ''vtan'', ''vrad'', ''sza'', ''pitch'',
                       ''yaw'', ''roll'', ''mag'', ''HGAout'', ''HGAin'', ''sun_dist'', ''rng'']
         \<and> (\<forall>c \<in> set df. length (snd c) = shape1 rpb)"
proof -
  let ?x = "linspace 0 (real_of_int (int (shape1 rpb) - 1)) (length aux)"
  let ?spl = "\<lambda>f. resample E ?x (arange (shape1 rpb)) (map f aux)"
  have len: "\<And>f v. ?spl f = Inr v \<Longrightarrow> length v = shape1 rpb"
    using resample_length by (fastforce simp: arange_def)
  from assms obtain a1 a2 a3 a4 a5 a6 a7 a8 a9 a10 a11 a12 a13 where
    s: "?spl lon = Inr a1" "?spl lat = Inr a2" "?spl radius = Inr a3" "?spl vtan = Inr a4"
       "?spl vrad = Inr a5" "?spl SZA = Inr a6" "?spl pitch = Inr a7" "?spl yaw = Inr a8"
       "?spl roll = Inr a9" "?spl Mag_field = Inr a10" "?spl HGAout = Inr a11"
       "?spl HGAin = Inr a12" "?spl Sun_dist = Inr a13"
    and df: "df = [(''lat'', a2), (''lon'', a1), (''radius'', a3), (''vtan'', a4),
                   (''vrad'', a5), (''sza'', a6), (''pitch'', a7), (''yaw'', a8),
                   (''roll'', a9), (''mag'', a10), (''HGAout'', a11), (''HGAin'', a12),
                   (''sun_dist'', a13), (''rng'', range_of E a3 a1 a2)]"
    unfolding get_aux_def Let_def ebind_Inr by blast
  have l: "length a1 = shape1 rpb" "length a2 = shape1 rpb" "length a3 = shape1 rpb"
    "length a4 = shape1 rpb" "length a5 = shape1 rpb" "length a6 = shape1 rpb"
    "length a7 = shape1 rpb" "length a8 = shape1 rpb" "length a9 = shape1 rpb"
    "length a10 = shape1 rpb" "length a11 = shape1 rpb" "length a12 = shape1 rpb"
    "length a13 = shape1 rpb"
    using s len by blast+
  have "length (range_of E a3 a1 a2) = shape1 rpb"
    using l by (simp add: range_of_length)
  with l show ?thesis by (simp add: df)
qed

lemma get_aux_rng:
  assumes "get_aux E aux rpb = Inr aux_df"
  shows "\<exists>rng_new. df_col aux_df ''rng'' = Inr rng_new \<and> length rng_new = shape1 rpb"
proof -
  from get_aux_shape [OF assms]
  have names: "map fst aux_df = [''lat'', ''lon'', ''radius'', ''vtan'', ''vrad'', ''sza'', ''pitch'',
                       ''yaw'', ''roll'', ''mag'', ''HGAout'', ''HGAin'', ''sun_dist'', ''rng'']"
    and lens: "\<forall>c \<in> set aux_df. length (snd c) = shape1 rpb" by auto
  have "''rng'' \<in> fst ` set aux_df"
    unfolding set_map [symmetric] names by simp
  then obtain c where c: "map_of aux_df ''rng'' = Some c"
    by (metis domD dom_map_of_conv_image_fst)
  then have "(''rng'', c) \<in> set aux_df" by (rule map_of_SomeD)
  with lens have "length c = shape1 rpb" by fastforce
  with c show ?thesis by (simp add: df_col_def)
qed

lemma get_aux_df_len:
  assumes "get_aux E aux rpb = Inr aux_df"
  shows "aux_df \<noteq> [] \<and> df_len aux_df = shape1 rpb \<and> ''amp'' \<notin> fst ` set aux_df"
proof -
  from get_aux_shape [OF assms]
  have names: "map fst aux_df = [''lat'', ''lon'', ''radius'', ''vtan'', ''vrad'', ''sza'', ''pitch'',
                       ''yaw'', ''roll'', ''mag'', ''HGAout'', ''HGAin'', ''sun_dist'', ''rng'']"
    and lens: "\<forall>c \<in> set aux_df. length (snd c) = shape1 rpb" by auto
  from names obtain c rest where cons: "aux_df = c # rest" by (cases aux_df) auto
  with lens have "length (snd c) = shape1 rpb" by simp
  then have "df_len aux_df = shape1 rpb" by (auto simp: df_len_def cons split: prod.splits)
  moreover have "''amp'' \<notin> fst ` set aux_df"
    unfolding set_map [symmetric] names by simp
  ultimately show ?thesis using cons by simp
qed

lemma df_col_appended:
  assumes "name \<notin> fst ` set df"
  shows "df_col (df @ [(name, c)]) name = Inr c"
proof -
  from assms have "map_of df name = None" by (simp add: map_of_eq_None_iff)
  then show ?thesis by (simp add: df_col_def map_add_def)
qed

lemma get_srf_table_Inr:
  assumes "get_srf_table E aux pik rpb mem = Inr df"
  shows "\<exists>aux_df pik_new rng_new pdb.
           get_aux E aux rpb = Inr aux_df \<and> get_pik pik rpb mem = Inr pik_new
           \<and> df_col aux_df ''rng'' = Inr rng_new
           \<and> snd (calibration pik_new (ct_c / frq) (RArray rng_new) (Fin abs_calib)) = Inr pdb
           \<and> length pdb = shape1 rpb
           \<and> df = aux_df @ [(''amp'', band_amp pdb)]"
proof -
  from assms obtain aux_df pik_new rng_new pdb where
    a: "get_aux E aux rpb = Inr aux_df" and p: "get_pik pik rpb mem = Inr pik_new"
    and r: "df_col aux_df ''rng'' = Inr rng_new"
    and c: "snd (calibration pik_new (ct_c / frq) (RArray rng_new) (Fin abs_calib)) = Inr pdb"
    and s: "df_set aux_df ''amp'' (band_amp pdb) = Inr df"
    unfolding get_srf_table_def ebind_Inr by blast
  from get_aux_df_len [OF a] have ne: "aux_df \<noteq> []" and n: "df_len aux_df = shape1 rpb"
    and amp: "''amp'' \<notin> fst ` set aux_df" by auto
  from s ne n have "length (band_amp pdb) = shape1 rpb"
    by (auto simp: df_set_def split: if_splits)
  then have l: "length pdb = shape1 rpb" by (simp add: band_amp_length)
  from s amp have "df = aux_df @ [(''amp'', band_amp pdb)]"
    by (auto simp: df_set_def split: if_splits)
  with a p r c l show ?thesis by blast
qed

lemma get_srf_table_returns:
  assumes "get_aux E aux rpb = Inr aux_df" and "get_pik pik rpb mem = Inr pik_new"
  shows "\<exists>df. get_srf_table E aux pik rpb mem = Inr df"
proof -
  from get_aux_rng [OF assms(1)] obtain rng_new where
    r: "df_col aux_df ''rng'' = Inr rng_new" and rl: "length rng_new = shape1 rpb" by blast
  from get_pik_length [OF assms(2)] have pl: "length pik_new = shape1 rpb" .
  from calibration_returns [of rng_new pik_new "ct_c / frq" "Fin abs_calib"] rl pl
  obtain pdb where
    c: "snd (calibration pik_new (ct_c / frq) (RArray rng_new) (Fin abs_calib)) = Inr pdb"
    and cl: "length pdb = shape1 rpb" by auto
  from get_aux_df_len [OF assms(1)] cl
  have "\<exists>df. df_set aux_df ''amp'' (band_amp pdb) = Inr df"
    by (simp add: df_set_def band_amp_length)
  with assms r c show ?thesis
    by (auto simp: get_srf_table_def ebind_def)
qed

lemma get_srf_table_shape:
  assumes "get_srf_table E aux pik rpb mem = Inr df"
  shows "df_len df = shape1 rpb \<and> (\<forall>c \<in> set df. length (snd c) = shape1 rpb)"
proof -
  from get_srf_table_Inr [OF assms] obtain aux_df pdb where
    a: "get_aux E aux rpb = Inr aux_df" and l: "length pdb = shape1 rpb"
    and df: "df = aux_df @ [(''amp'', band_amp pdb)]" by blast
  from get_aux_shape [OF a] have lens: "\<forall>c \<in> set aux_df. length (snd c) = shape1 rpb" by simp
  from get_aux_df_len [OF a] obtain c rest where cons: "aux_df = c # rest"
    and n: "df_len aux_df = shape1 rpb" by (cases aux_df) auto
  have "df_len df = df_len aux_df" by (simp add: df cons df_len_def)
  with n lens l show ?thesis by (auto simp: df band_amp_length)
qed

lemma fst_get_srf: "fst (get_srf E aux pik rpb mem orbit save) = get_srf_table E aux pik rpb mem"
  by (simp add: get_srf_def split: sum.splits)

subsection \<open>A run on constant telemetry\<close>

lemma flat_resample:
  "resample flat_ext (linspace 0 s 4) xnew (map f flat_aux) = Inr (replicate (length xnew) (f flat_row))"
  by (simp add: resample_def flat_ext_def flat_aux_def linspace_def map_replicate_const)

lemma flat_get_aux: "get_aux flat_ext flat_aux (ramp_rpb n) = Inr (flat_df n)"
proof -
  have l: "length flat_aux = 4" by (simp add: flat_aux_def)
  have s: "shape1 (ramp_rpb n) = n" by (simp add: ramp_rpb_def)
  have la: "length (arange n) = n" by (simp add: arange_def)
  have e: "lonlat2rad flat_ext = (\<lambda>lo la. Fin 3389500)" by (simp add: flat_ext_def)
  show ?thesis
    unfolding get_aux_def Let_def l s flat_resample la ebind_def sum.case range_of_def e
    by (simp add: flat_df_def flat_row_def fsub_def zip_replicate map_replicate_const)
qed

lemma loss_flat: "\<exists>L. loss_of (Fin 310500) = Fin L \<and> 0 < L \<and> L < 140"
proof -
  let ?a = "8 * pi * 310500"
  have lo: "1 < ?a" using pi_ge_two by simp
  have hi: "?a < 10 ^ 7" using pi_less_4 by simp
  have "0 < log 10 ?a" using lo by simp
  moreover have "log 10 ?a < 7"
    using lo hi by (subst log_less_iff) simp_all
  ultimately have b: "0 < 20 * log 10 ?a \<and> 20 * log 10 ?a < 140" by simp
  have "loss_of (Fin 310500) = Fin (20 * log 10 ?a)"
    using lo by (simp add: loss_of_def)
  with b show ?thesis by blast
qed

lemma flat_rng: "df_col (flat_df n) ''rng'' = Inr (replicate n (Fin 310500))"
  by (simp add: df_col_def flat_df_def)

lemma df_set_amp: "length c = n \<Longrightarrow> df_set (flat_df n) ''amp'' c = Inr (flat_df n @ [(''amp'', c)])"
  by (simp add: df_set_def flat_df_def df_len_def)

lemma df_col_amp: "df_col (flat_df n @ [(''amp'', c)]) ''amp'' = Inr c"
  by (simp add: df_col_def flat_df_def)

lemma table_run:
  "get_srf_table flat_ext flat_aux one_pick (ramp_rpb 2) (mem_all v) =
     (case snd (calibration [Fin 100, v] (ct_c / frq) (RArray [Fin 310500, Fin 310500]) (Fin abs_calib)) of
        Inl e \<Rightarrow> Inl e
      | Inr pdb \<Rightarrow> df_set (flat_df 2) ''amp'' (band_amp pdb))"
proof -
  have r: "df_col (flat_df 2) ''rng'' = Inr [Fin 310500, Fin 310500]"
    unfolding flat_rng by (simp add: numeral_2_eq_2)
  show ?thesis
    by (simp add: get_srf_table_def flat_get_aux pik_run r ebind_def)
qed

lemma cal_run:
  "snd (calibration [Fin 100, v] wl (RArray [Fin 310500, Fin 310500]) ac)
     = Inr [fadd (fadd (fmul (Fin 10) (flog10 (Fin 100))) ac) (loss_of (Fin 310500)),
            fadd (fadd (fmul (Fin 10) (flog10 (if flt_eq v (Fin 0) then NaN else v))) ac) (loss_of (Fin 310500))]"
  by (simp add: calibration_def zero_to_nan_def flt_eq_def)

lemma table_run_zero:
  "\<exists>a. get_srf_table flat_ext flat_aux one_pick (ramp_rpb 2) (mem_all (Fin 0)) =
     Inr (flat_df 2 @ [(''amp'', [a, NaN])])"
  unfolding table_run cal_run
  by (simp add: band_amp_def df_set_amp flt_eq_def)

lemma table_run_one:
  "\<exists>a b. get_srf_table flat_ext flat_aux one_pick (ramp_rpb 2) (mem_all (Fin 1)) =
     Inr (flat_df 2 @ [(''amp'', [a, Fin b])])"
proof -
  from loss_flat obtain L where L: "loss_of (Fin 310500) = Fin L" "0 < L" "L < 140" by blast
  show ?thesis
    unfolding table_run cal_run L
    using L(2,3) by (simp add: band_amp_def df_set_amp flt_eq_def abs_calib_def)
qed

text \<open>
  Claim C2, as the code has it. When \<^verbatim>\<open>get_srf\<close> returns a table, its column \<^verbatim>\<open>amp\<close>
  has one value per frame, computed from the calibrated sequence \<open>pdb\<close>, and the amplitude
  at an index is missing exactly when the calibrated value there is missing, or is below
  -200, or is above 10. A calibrated value of exactly -200 is kept.
\<close>

theorem get_srf_band_screen:
  assumes "fst (get_srf E aux pik rpb mem orbit save) = Inr df"
  shows "\<exists>aux_df pik_new rng_new pdb amp.
           get_aux E aux rpb = Inr aux_df \<and> get_pik pik rpb mem = Inr pik_new
           \<and> df_col aux_df ''rng'' = Inr rng_new
           \<and> snd (calibration pik_new (ct_c / frq) (RArray rng_new) (Fin abs_calib)) = Inr pdb
           \<and> df_col df ''amp'' = Inr amp \<and> length amp = shape1 rpb \<and> length pdb = shape1 rpb
           \<and> (\<forall>i < shape1 rpb.
                 amp ! i = NaN
                 \<longleftrightarrow> pdb ! i = NaN \<or> flt_less (pdb ! i) (Fin (- 200))
                     \<or> flt_less (Fin 10) (pdb ! i))"
proof -
  from assms have "get_srf_table E aux pik rpb mem = Inr df" by (simp add: fst_get_srf)
  from get_srf_table_Inr [OF this] obtain aux_df pik_new rng_new pdb where
    a: "get_aux E aux rpb = Inr aux_df" and p: "get_pik pik rpb mem = Inr pik_new"
    and r: "df_col aux_df ''rng'' = Inr rng_new"
    and c: "snd (calibration pik_new (ct_c / frq) (RArray rng_new) (Fin abs_calib)) = Inr pdb"
    and l: "length pdb = shape1 rpb" and df: "df = aux_df @ [(''amp'', band_amp pdb)]"
    by blast
  from get_aux_df_len [OF a] have "''amp'' \<notin> fst ` set aux_df" by simp
  then have col: "df_col df ''amp'' = Inr (band_amp pdb)"
    unfolding df by (rule df_col_appended)
  have scr: "\<forall>i < shape1 rpb.
               band_amp pdb ! i = NaN
               \<longleftrightarrow> pdb ! i = NaN \<or> flt_less (pdb ! i) (Fin (- 200))
                   \<or> flt_less (Fin 10) (pdb ! i)"
    using band_amp_nth [of _ pdb] l by simp
  have "length (band_amp pdb) = shape1 rpb" using l by (simp add: band_amp_length)
  with a p r c col l scr show ?thesis by blast
qed

text \<open>
  Two frames, one pick, and a zero at the index without a pick: the table is returned and
  the amplitude at index 1 is missing exactly when the calibrated value there is missing or
  out of the band.
\<close>

theorem get_srf_band_screen_witness:
  "\<exists>df pdb amp.
     fst (get_srf flat_ext flat_aux one_pick (ramp_rpb 2) (mem_all (Fin 0)) ''887601'' False) = Inr df
     \<and> df_col df ''amp'' = Inr amp \<and> length pdb = 2
     \<and> (amp ! 1 = NaN
          \<longleftrightarrow> pdb ! 1 = NaN \<or> flt_less (pdb ! 1) (Fin (- 200)) \<or> flt_less (Fin 10) (pdb ! 1))"
proof -
  from table_run_zero obtain a where
    run: "fst (get_srf flat_ext flat_aux one_pick (ramp_rpb 2) (mem_all (Fin 0)) ''887601'' False)
            = Inr (flat_df 2 @ [(''amp'', [a, NaN])])"
    unfolding fst_get_srf by blast
  from get_srf_band_screen [OF run] obtain pdb amp where
    c: "df_col (flat_df 2 @ [(''amp'', [a, NaN])]) ''amp'' = Inr amp"
    and lp: "length pdb = shape1 (ramp_rpb 2)"
    and scr: "\<forall>i < shape1 (ramp_rpb 2).
               amp ! i = NaN
               \<longleftrightarrow> pdb ! i = NaN \<or> flt_less (pdb ! i) (Fin (- 200))
                   \<or> flt_less (Fin 10) (pdb ! i)"
    by blast
  have s: "shape1 (ramp_rpb 2) = 2" by (simp add: ramp_rpb_def)
  from scr have "amp ! 1 = NaN
      \<longleftrightarrow> pdb ! 1 = NaN \<or> flt_less (pdb ! 1) (Fin (- 200)) \<or> flt_less (Fin 10) (pdb ! 1)"
    unfolding s by simp
  with run c lp show ?thesis unfolding s by blast
qed

text \<open>
  Claim C2, as stated, screens the calibrated value -200 and makes the amplitude missing
  only where the calibrated value is at most -200 or above 10. The value -200 is at most
  -200 and its amplitude is \<open>10 powr (- 10)\<close>; a missing calibrated value is neither at most
  -200 nor above 10 and its amplitude is missing.
\<close>

theorem band_screen_counterexample:
  "flt_le (Fin (- 200)) (Fin (- 200))
   \<and> band_amp [Fin (- 200)] ! 0 = Fin (10 powr (- 10))
   \<and> band_amp [Fin (- 200)] ! 0 \<noteq> NaN
   \<and> band_amp [NaN] ! 0 = NaN
   \<and> \<not> flt_le NaN (Fin (- 200)) \<and> \<not> flt_less (Fin 10) NaN"
  by (simp add: band_amp_def flt_le_def flt_eq_def)

text \<open>
  Claim C7. A table that \<^verbatim>\<open>get_srf\<close> returns has one row per frame of the waveform
  array, in every column, whatever the pick table is. And \<^verbatim>\<open>get_srf\<close> does return a table
  when the telemetry is resampled without an exception and every pick addresses a frame of
  the array.
\<close>

theorem get_srf_rows:
  "(\<forall>df. fst (get_srf E aux pik rpb mem orbit save) = Inr df
       \<longrightarrow> df_len df = shape1 rpb \<and> (\<forall>c \<in> set df. length (snd c) = shape1 rpb))
   \<and> ((\<exists>aux_df. get_aux E aux rpb = Inr aux_df)
        \<and> (\<forall>p \<in> set pik. - int (shape1 rpb) \<le> x_of p \<and> x_of p < int (shape1 rpb))
       \<longrightarrow> (\<exists>df. fst (get_srf E aux pik rpb mem orbit save) = Inr df))"
  using get_srf_table_shape [of E aux pik rpb mem] get_srf_table_returns [of E aux rpb _ pik mem]
    get_pik_returns [of pik rpb mem]
  unfolding fst_get_srf by blast

text \<open>Five frames and a single pick: the table has five rows.\<close>

theorem get_srf_rows_witness:
  "\<exists>df. fst (get_srf flat_ext flat_aux one_pick (ramp_rpb 5) (mem_all (Fin 7)) ''887601'' False)
           = Inr df
         \<and> df_len df = 5"
proof -
  have a: "\<exists>aux_df. get_aux flat_ext flat_aux (ramp_rpb 5) = Inr aux_df"
    using flat_get_aux by blast
  have p: "\<forall>p \<in> set one_pick.
             - int (shape1 (ramp_rpb 5)) \<le> x_of p \<and> x_of p < int (shape1 (ramp_rpb 5))"
    by (simp add: one_pick_def x_of_def ramp_rpb_def)
  have s: "shape1 (ramp_rpb 5) = 5" by (simp add: ramp_rpb_def)
  from get_srf_rows [of flat_ext flat_aux one_pick "ramp_rpb 5" "mem_all (Fin 7)" "''887601''" False]
    a p show ?thesis unfolding s by blast
qed

text \<open>
  Claim C8 says that two runs on the same input files give the same table. The output of
  \<^verbatim>\<open>get_pik\<close> at an index without a pick is what the memory of \<^verbatim>\<open>np.empty\<close> held, and
  \<^verbatim>\<open>get_srf\<close> calibrates it like an echo. On the same telemetry, pick table and
  waveforms, a run on a memory holding 0 and a run on a memory holding 1 return different
  tables: the amplitude at index 1 is missing in the first and a number in the second.
\<close>

theorem get_srf_depends_on_memory:
  "get_srf flat_ext flat_aux one_pick (ramp_rpb 2) (mem_all (Fin 0)) ''887601'' False
     \<noteq> get_srf flat_ext flat_aux one_pick (ramp_rpb 2) (mem_all (Fin 1)) ''887601'' False
   \<and> (\<exists>dfA dfB ampA ampB.
         fst (get_srf flat_ext flat_aux one_pick (ramp_rpb 2) (mem_all (Fin 0)) ''887601'' False) = Inr dfA
       \<and> fst (get_srf flat_ext flat_aux one_pick (ramp_rpb 2) (mem_all (Fin 1)) ''887601'' False) = Inr dfB
       \<and> df_col dfA ''amp'' = Inr ampA \<and> df_col dfB ''amp'' = Inr ampB
       \<and> ampA ! 1 = NaN \<and> ampB ! 1 \<noteq> NaN)"
proof -
  from table_run_zero obtain a where
    A: "get_srf_table flat_ext flat_aux one_pick (ramp_rpb 2) (mem_all (Fin 0)) =
          Inr (flat_df 2 @ [(''amp'', [a, NaN])])" by blast
  from table_run_one obtain a' b where
    B: "get_srf_table flat_ext flat_aux one_pick (ramp_rpb 2) (mem_all (Fin 1)) =
          Inr (flat_df 2 @ [(''amp'', [a', Fin b])])" by blast
  have ne: "get_srf_table flat_ext flat_aux one_pick (ramp_rpb 2) (mem_all (Fin 0))
          \<noteq> get_srf_table flat_ext flat_aux one_pick (ramp_rpb 2) (mem_all (Fin 1))"
    unfolding A B by simp
  then have "get_srf flat_ext flat_aux one_pick (ramp_rpb 2) (mem_all (Fin 0)) ''887601'' False
     \<noteq> get_srf flat_ext flat_aux one_pick (ramp_rpb 2) (mem_all (Fin 1)) ''887601'' False"
    by (metis fst_get_srf)
  moreover have "df_col (flat_df 2 @ [(''amp'', [a, NaN])]) ''amp'' = Inr [a, NaN]"
    "df_col (flat_df 2 @ [(''amp'', [a', Fin b])]) ''amp'' = Inr [a', Fin b]"
    by (rule df_col_amp)+
  ultimately show ?thesis
    unfolding fst_get_srf A B by (intro conjI exI) (assumption | simp)+
qed

section \<open>The positions of the native samples\<close>










lemma cubic_lat_values:
  "map (\<lambda>k. lagrange [(0, 0), (2, 1), (4, 8), (6, 27)] (real k)) [0, 1, 2, 3, 4, 5, 6]
     = [0, 1 / 8, 1, 27 / 8, 8, 125 / 8, 27]"
  by (simp add: lagrange_def)



section \<open>The sliding estimator\<close>

lemma get_srf_True:
  "get_srf E aux pik rpb mem orbit True =
     (case get_srf_table E aux pik rpb mem of
        Inl e \<Rightarrow> (Inl e, [])
      | Inr df \<Rightarrow> (Inr df, [ToCsv (srf_file orbit) df]))"
  by (simp add: get_srf_def split: sum.splits)

text \<open>When the pipeline raises, so does \<^verbatim>\<open>inline_rsr\<close>, and nothing is written.\<close>

lemma inline_rsr_failed:
  assumes "get_srf_table E aux pik rpb mem = Inl e"
  shows "inline_rsr E aux pik rpb mem orbit winsize sampling save = (Inl e, [])"
  using assms by (simp add: inline_rsr_def get_srf_True)

text \<open>The three ways through the branch \<^verbatim>\<open>if save is True\<close>.\<close>

lemma save_rsr_cases:
  "(rsr_file E orbit = Inl NameError \<and> save_rsr E orbit b = (Some NameError, []))
   \<or> (\<exists>p e. rsr_file E orbit = Inr p \<and> plot_inline E b frq (zfill 7 orbit) = Some e
          \<and> save_rsr E orbit b = (Some e, [ToCsv (p @ ''.txt'') b]))
   \<or> (\<exists>p. rsr_file E orbit = Inr p \<and> plot_inline E b frq (zfill 7 orbit) = None
          \<and> save_rsr E orbit b = (None, [ToCsv (p @ ''.txt'') b, SaveFig (p @ ''.png'')]))"
  by (auto simp: save_rsr_def rsr_file_def split: option.splits sum.splits)

lemma srf_file_example: "srf_file ''887601'' = ''../../../targ/xtra/SHARAD/srf/0887601.srf.txt''"
  by (simp add: srf_file_def srf_path_def zfill_def)

lemma rsr_file_undefined: "rsr_file flat_ext orbit = Inl NameError"
  by (simp add: rsr_file_def flat_ext_def)

lemma rsr_file_example: "rsr_file site_ext ''887601'' = Inr ''/home/user/targ/sharad/rsr/0887601.hk.spm''"
  by (simp add: rsr_file_def site_ext_def flat_ext_def zfill_def)

lemma flat_estimate:
  assumes "inline_estim E = (\<lambda>amp f w s. Inr [(''xo'', [Fin 0])])"
  shows "\<exists>b. ebind (df_col (flat_df 2 @ [(''amp'', c)]) ''amp'') (\<lambda>amp.
                ebind (inline_estim E amp frq winsize sampling) (\<lambda>b.
                ebind (df_col b ''xo'') (\<lambda>xo.
                ebind (attach (flat_df 2 @ [(''amp'', c)]) xo ''lat'' b) (\<lambda>b1.
                ebind (attach (flat_df 2 @ [(''amp'', c)]) xo ''lon'' b1) (\<lambda>b2.
                ebind (attach (flat_df 2 @ [(''amp'', c)]) xo ''roll'' b2) (\<lambda>b3.
                ebind (attach (flat_df 2 @ [(''amp'', c)]) xo ''rng'' b3) (\<lambda>b4.
                attach (flat_df 2 @ [(''amp'', c)]) xo ''sza'' b4))))))) = Inr b"
  by (simp add: assms ebind_def df_col_def flat_df_def attach_def df_set_def df_len_def ix_lookup_def)

lemma site_table:
  "get_srf_table site_ext aux pik rpb mem = get_srf_table flat_ext aux pik rpb mem"
proof -
  have r: "resample site_ext x xnew c = resample flat_ext x xnew c" for x xnew c
    by (simp add: resample_def site_ext_def cong: if_cong sum.case_cong)
  have g: "range_of site_ext r lo la = range_of flat_ext r lo la" for r lo la
    by (simp add: range_of_def site_ext_def)
  show ?thesis
    by (simp add: get_srf_table_def get_aux_def r g)
qed



text \<open>With the sources alone, the run with the flag on writes the aligned track and raises.\<close>

lemma flat_run_save:
  "\<exists>df. inline_rsr flat_ext flat_aux one_pick (ramp_rpb 2) (mem_all (Fin 0)) ''887601'' 1000 250 True
          = (Inl NameError, [ToCsv ''../../../targ/xtra/SHARAD/srf/0887601.srf.txt'' df])"
proof -
  from table_run_zero obtain a where
    run: "get_srf_table flat_ext flat_aux one_pick (ramp_rpb 2) (mem_all (Fin 0))
            = Inr (flat_df 2 @ [(''amp'', [a, NaN])])" by blast
  have e: "inline_estim flat_ext = (\<lambda>amp f w s. Inr [(''xo'', [Fin 0])])"
    by (simp add: flat_ext_def)
  from flat_estimate [OF e, of "[a, NaN]" 1000 250] obtain b where
    b: "ebind (df_col (flat_df 2 @ [(''amp'', [a, NaN])]) ''amp'') (\<lambda>amp.
                ebind (inline_estim flat_ext amp frq 1000 250) (\<lambda>b.
                ebind (df_col b ''xo'') (\<lambda>xo.
                ebind (attach (flat_df 2 @ [(''amp'', [a, NaN])]) xo ''lat'' b) (\<lambda>b1.
                ebind (attach (flat_df 2 @ [(''amp'', [a, NaN])]) xo ''lon'' b1) (\<lambda>b2.
                ebind (attach (flat_df 2 @ [(''amp'', [a, NaN])]) xo ''roll'' b2) (\<lambda>b3.
                ebind (attach (flat_df 2 @ [(''amp'', [a, NaN])]) xo ''rng'' b3) (\<lambda>b4.
                attach (flat_df 2 @ [(''amp'', [a, NaN])]) xo ''sza'' b4))))))) = Inr b"
    by blast
  show ?thesis
    unfolding inline_rsr_def get_srf_True run sum.case prod.case b
    by (simp add: save_rsr_def rsr_file_undefined srf_file_example)
qed

text \<open>
  On an installation that defines the two names, the same run writes the three files and
  returns.
\<close>

lemma site_run_save:
  "\<exists>df b. inline_rsr site_ext flat_aux one_pick (ramp_rpb 2) (mem_all (Fin 0)) ''887601'' 1000 250 True
          = (Inr b, [ToCsv ''../../../targ/xtra/SHARAD/srf/0887601.srf.txt'' df,
                     ToCsv ''/home/user/targ/sharad/rsr/0887601.hk.spm.txt'' b,
                     SaveFig ''/home/user/targ/sharad/rsr/0887601.hk.spm.png''])"
proof -
  from table_run_zero obtain a where
    run: "get_srf_table site_ext flat_aux one_pick (ramp_rpb 2) (mem_all (Fin 0))
            = Inr (flat_df 2 @ [(''amp'', [a, NaN])])"
    unfolding site_table by blast
  have e: "inline_estim site_ext = (\<lambda>amp f w s. Inr [(''xo'', [Fin 0])])"
    by (simp add: site_ext_def flat_ext_def)
  have p: "plot_inline site_ext = (\<lambda>b f title. None)"
    by (simp add: site_ext_def flat_ext_def)
  from flat_estimate [OF e, of "[a, NaN]" 1000 250] obtain b where
    b: "ebind (df_col (flat_df 2 @ [(''amp'', [a, NaN])]) ''amp'') (\<lambda>amp.
                ebind (inline_estim site_ext amp frq 1000 250) (\<lambda>b.
                ebind (df_col b ''xo'') (\<lambda>xo.
                ebind (attach (flat_df 2 @ [(''amp'', [a, NaN])]) xo ''lat'' b) (\<lambda>b1.
                ebind (attach (flat_df 2 @ [(''amp'', [a, NaN])]) xo ''lon'' b1) (\<lambda>b2.
                ebind (attach (flat_df 2 @ [(''amp'', [a, NaN])]) xo ''roll'' b2) (\<lambda>b3.
                ebind (attach (flat_df 2 @ [(''amp'', [a, NaN])]) xo ''rng'' b3) (\<lambda>b4.
                attach (flat_df 2 @ [(''amp'', [a, NaN])]) xo ''sza'' b4))))))) = Inr b"
    by blast
  show ?thesis
    unfolding inline_rsr_def get_srf_True run sum.case prod.case b
    by (simp add: save_rsr_def rsr_file_example srf_file_example p)
qed


end
